theory Spec2Isabelle
  imports Main "HOL-Library.Word"
begin

section \<open>JavaScript strings\<close>

text \<open>
  A JavaScript string is a sequence of 16-bit code units. String literals of the
  source are written with \<open>js\<close>, which maps each ASCII character to its code unit.
\<close>

type_synonym jsstring = "16 word list"

definition js :: "string \<Rightarrow> jsstring" where
  "js s = map of_char s"

text \<open>
  \<^verbatim>\<open>String.prototype.trim\<close> removes the code units of WhiteSpace and
  LineTerminator from both ends.
\<close>

definition is_whitespace :: "16 word \<Rightarrow> bool" where
  "is_whitespace c =
     (if 0x2000 \<le> c \<and> c \<le> 0x200A then True
      else c \<in> set [0x09, 0x0A, 0x0B, 0x0C, 0x0D, 0x20, 0xA0, 0x1680,
                      0x2028, 0x2029, 0x202F, 0x205F, 0x3000, 0xFEFF])"

definition String_trim :: "jsstring \<Rightarrow> jsstring" where
  "String_trim s = rev (dropWhile is_whitespace (rev (dropWhile is_whitespace s)))"

text \<open>
  \<^verbatim>\<open>s.replace(pat, rep)\<close> with a string pattern replaces the first occurrence of
  \<open>pat\<close>. The source passes the empty replacement, so the \<^verbatim>\<open>$\<close> patterns of a
  replacement string do not arise.
\<close>

fun String_replace :: "jsstring \<Rightarrow> jsstring \<Rightarrow> jsstring \<Rightarrow> jsstring" where
  "String_replace pat rep [] = (if pat = [] then rep else [])"
| "String_replace pat rep (c # cs) =
     (if take (length pat) (c # cs) = pat then rep @ drop (length pat) (c # cs)
      else c # String_replace pat rep cs)"

section \<open>The favourites object\<close>

text \<open>
  \<^verbatim>\<open>this.favourites\<close> is an ordinary object whose prototype is
  \<^verbatim>\<open>Object.prototype\<close>. It is modelled by the list of its own properties, stop
  identifier and stop name, in the order in which \<^verbatim>\<open>Object.entries\<close> and
  \<^verbatim>\<open>JSON.stringify\<close> enumerate them: array-index keys in ascending numeric
  order first, then the other keys in the order of their creation. The stored values
  are strings, as every value the manager itself writes is.
\<close>

type_synonym object = "(jsstring \<times> jsstring) list"

definition is_digit :: "16 word \<Rightarrow> bool" where
  "is_digit c = (0x30 \<le> c \<and> c \<le> 0x39)"

definition digits_value :: "jsstring \<Rightarrow> int" where
  "digits_value ds = foldl (\<lambda>n c. 10 * n + uint (c - 0x30)) 0 ds"

text \<open>An array index is the canonical decimal form of an integer from 0 to 2^32 - 2.\<close>

definition is_array_index :: "jsstring \<Rightarrow> bool" where
  "is_array_index k =
     (case k of
        [] \<Rightarrow> False
      | c # cs \<Rightarrow> list_all is_digit k \<and> (if c = 0x30 then cs = [] else True)
                  \<and> digits_value k \<le> 4294967294)"

fun insert_index :: "jsstring \<Rightarrow> 'v \<Rightarrow> (jsstring \<times> 'v) list \<Rightarrow> (jsstring \<times> 'v) list" where
  "insert_index k v [] = [(k, v)]"
| "insert_index k v (p # ps) =
     (if is_array_index (fst p) \<and> digits_value (fst p) < digits_value k
      then p # insert_index k v ps
      else (k, v) # p # ps)"

text \<open>
  CreateDataProperty: an own property keeps its place and takes the new value; a new
  property is placed by the enumeration order.
\<close>

definition define_prop :: "(jsstring \<times> 'v) list \<Rightarrow> jsstring \<Rightarrow> 'v \<Rightarrow> (jsstring \<times> 'v) list" where
  "define_prop obj k v =
     (if k \<in> set (map fst obj) then map (\<lambda>p. if fst p = k then (k, v) else p) obj
      else if is_array_index k then insert_index k v obj
      else obj @ [(k, v)])"

text \<open>The names of the properties that \<^verbatim>\<open>Object.prototype\<close> itself has.\<close>

definition Object_prototype_names :: "jsstring list" where
  "Object_prototype_names =
     [js ''constructor'', js ''hasOwnProperty'', js ''isPrototypeOf'',
      js ''propertyIsEnumerable'', js ''toLocaleString'', js ''toString'',
      js ''valueOf'', js ''__proto__'', js ''__defineGetter__'',
      js ''__defineSetter__'', js ''__lookupGetter__'', js ''__lookupSetter__'']"

text \<open>
  What \<^verbatim>\<open>obj[k]\<close> evaluates to: the own property, else the function or object
  inherited from \<^verbatim>\<open>Object.prototype\<close>, else \<^verbatim>\<open>undefined\<close>.
\<close>

datatype jsvalue = Undefined | String jsstring | Inherited

definition get_prop :: "object \<Rightarrow> jsstring \<Rightarrow> jsvalue" where
  "get_prop obj k =
     (case map_of obj k of
        Some v \<Rightarrow> String v
      | None \<Rightarrow> if k \<in> set Object_prototype_names then Inherited else Undefined)"

fun truthy :: "jsvalue \<Rightarrow> bool" where
  "truthy Undefined = False"
| "truthy (String s) = (s \<noteq> [])"
| "truthy Inherited = True"

text \<open>
  \<^verbatim>\<open>obj[k] = v\<close> for a string \<open>v\<close>: the inherited \<^verbatim>\<open>__proto__\<close> setter
  ignores a value that is not an object; every other inherited property is a writable
  data property, so the assignment creates an own property.
\<close>

definition assign_prop :: "object \<Rightarrow> jsstring \<Rightarrow> jsstring \<Rightarrow> object" where
  "assign_prop obj k v =
     (if map_of obj k = None \<and> k = js ''__proto__'' then obj else define_prop obj k v)"

definition delete_prop :: "object \<Rightarrow> jsstring \<Rightarrow> object" where
  "delete_prop obj k = filter (\<lambda>p. fst p \<noteq> k) obj"

definition Object_entries :: "object \<Rightarrow> (jsstring \<times> jsstring) list" where
  "Object_entries obj = obj"

definition Object_keys :: "object \<Rightarrow> jsstring list" where
  "Object_keys obj = map fst obj"

section \<open>JSON.stringify of the favourites object\<close>

definition hex_digit :: "nat \<Rightarrow> 16 word" where
  "hex_digit n = (js ''0123456789abcdef'') ! (n mod 16)"

definition unicode_escape :: "16 word \<Rightarrow> jsstring" where
  "unicode_escape c =
     [0x5C, 0x75] @ [hex_digit (unat c div 4096), hex_digit (unat c div 256),
                   hex_digit (unat c div 16), hex_digit (unat c)]"

definition is_high_surrogate :: "16 word \<Rightarrow> bool" where
  "is_high_surrogate c = (0xD800 \<le> c \<and> c \<le> 0xDBFF)"

definition is_low_surrogate :: "16 word \<Rightarrow> bool" where
  "is_low_surrogate c = (0xDC00 \<le> c \<and> c \<le> 0xDFFF)"

definition quote_unit :: "16 word \<Rightarrow> jsstring" where
  "quote_unit c =
     (if c = 0x08 then 0x5C # js ''b''
      else if c = 0x09 then 0x5C # js ''t''
      else if c = 0x0A then 0x5C # js ''n''
      else if c = 0x0C then 0x5C # js ''f''
      else if c = 0x0D then 0x5C # js ''r''
      else if c = 0x22 then [0x5C, 0x22]
      else if c = 0x5C then [0x5C, 0x5C]
      else if c < 0x20 then unicode_escape c
      else [c])"

text \<open>
  QuoteJSONString walks the code points: a surrogate pair is copied, a surrogate on
  its own is escaped.
\<close>

fun quote_units :: "jsstring \<Rightarrow> jsstring" where
  "quote_units [] = []"
| "quote_units [c] =
     (if is_high_surrogate c \<or> is_low_surrogate c then unicode_escape c else quote_unit c)"
| "quote_units (c # d # cs) =
     (if is_high_surrogate c then
        (if is_low_surrogate d then c # d # quote_units cs
         else unicode_escape c @ quote_units (d # cs))
      else if is_low_surrogate c then unicode_escape c @ quote_units (d # cs)
      else quote_unit c @ quote_units (d # cs))"

definition QuoteJSONString :: "jsstring \<Rightarrow> jsstring" where
  "QuoteJSONString s = [0x22] @ quote_units s @ [0x22]"

fun join_members :: "jsstring list \<Rightarrow> jsstring" where
  "join_members [] = []"
| "join_members [m] = m"
| "join_members (m # n # ms) = m @ js '','' @ join_members (n # ms)"

definition JSON_stringify :: "object \<Rightarrow> jsstring" where
  "JSON_stringify obj =
     js ''{'' @ join_members (map (\<lambda>p. QuoteJSONString (fst p) @ js '':'' @ QuoteJSONString (snd p)) obj)
     @ js ''}''"

section \<open>JSON.parse\<close>

text \<open>
  The value that \<^verbatim>\<open>JSON.parse\<close> returns. A number is kept as the decimal
  \<open>m * 10 ^ e\<close> that its text denotes (JavaScript rounds it to the nearest double).
  The members of an object are in the enumeration order of its own properties.
\<close>

datatype json =
    JNull
  | JBool bool
  | JNumber int int
  | JString jsstring
  | JArray "json list"
  | JObject "(jsstring \<times> json) list"

datatype token =
    TLBrace | TRBrace | TLBracket | TRBracket | TColon | TComma
  | TString jsstring | TNumber int int | TTrue | TFalse | TNull

text \<open>
  The scanner reads one code unit at a time. Inside a number it remembers which part
  of the number grammar it is in, whether a minus sign was read, the digits of the
  integer and fraction parts as one integer, the number of fraction digits, the sign
  of the exponent and the exponent.
\<close>

datatype num_part = NMinus | NZero | NInt | NDot | NFrac | NE | NESign | NExp

record num_acc =
  neg :: bool
  mant :: int
  scale :: int
  eneg :: bool
  expo :: int

datatype lex_mode =
    Top
  | InLiteral jsstring token
  | InString jsstring
  | InEscape jsstring
  | InHex jsstring nat nat
  | InNumber num_part num_acc

definition num_token :: "num_acc \<Rightarrow> token" where
  "num_token a =
     TNumber (if neg a then - mant a else mant a)
             ((if eneg a then - expo a else expo a) - scale a)"

definition digit_of :: "16 word \<Rightarrow> int" where
  "digit_of c = uint (c - 0x30)"

definition hex_value :: "16 word \<Rightarrow> nat option" where
  "hex_value c =
     (if 0x30 \<le> c \<and> c \<le> 0x39 then Some (unat (c - 0x30))
      else if 0x41 \<le> c \<and> c \<le> 0x46 then Some (unat (c - 0x41) + 10)
      else if 0x61 \<le> c \<and> c \<le> 0x66 then Some (unat (c - 0x61) + 10)
      else None)"

definition num_start :: num_acc where
  "num_start = \<lparr>neg = False, mant = 0, scale = 0, eneg = False, expo = 0\<rparr>"

text \<open>A code unit where a token may begin; \<open>toks\<close> are the tokens so far, last first.\<close>

definition top_step :: "token list \<Rightarrow> 16 word \<Rightarrow> (lex_mode \<times> token list) option" where
  "top_step toks c =
     (if c = 0x20 \<or> c = 0x09 \<or> c = 0x0A \<or> c = 0x0D then Some (Top, toks)
      else if c = 0x7B then Some (Top, TLBrace # toks)
      else if c = 0x7D then Some (Top, TRBrace # toks)
      else if c = 0x5B then Some (Top, TLBracket # toks)
      else if c = 0x5D then Some (Top, TRBracket # toks)
      else if c = 0x3A then Some (Top, TColon # toks)
      else if c = 0x2C then Some (Top, TComma # toks)
      else if c = 0x22 then Some (InString [], toks)
      else if c = 0x2D then Some (InNumber NMinus (num_start\<lparr>neg := True\<rparr>), toks)
      else if c = 0x30 then Some (InNumber NZero num_start, toks)
      else if is_digit c then Some (InNumber NInt (num_start\<lparr>mant := digit_of c\<rparr>), toks)
      else if c = 0x74 then Some (InLiteral (js ''rue'') TTrue, toks)
      else if c = 0x66 then Some (InLiteral (js ''alse'') TFalse, toks)
      else if c = 0x6E then Some (InLiteral (js ''ull'') TNull, toks)
      else None)"

definition escape_unit :: "16 word \<Rightarrow> 16 word option" where
  "escape_unit c =
     (if c = 0x22 \<or> c = 0x5C \<or> c = 0x2F then Some c
      else if c = 0x62 then Some 0x08
      else if c = 0x66 then Some 0x0C
      else if c = 0x6E then Some 0x0A
      else if c = 0x72 then Some 0x0D
      else if c = 0x74 then Some 0x09
      else None)"

definition num_step :: "num_part \<Rightarrow> num_acc \<Rightarrow> token list \<Rightarrow> 16 word \<Rightarrow> (lex_mode \<times> token list) option" where
  "num_step p a toks c =
     (let is_e = (c = 0x65 \<or> c = 0x45);
          finish = top_step (num_token a # toks) c
      in case p of
           NMinus \<Rightarrow>
             if c = 0x30 then Some (InNumber NZero a, toks)
             else if is_digit c then Some (InNumber NInt (a\<lparr>mant := digit_of c\<rparr>), toks)
             else None
         | NZero \<Rightarrow>
             if c = 0x2E then Some (InNumber NDot a, toks)
             else if is_e then Some (InNumber NE a, toks)
             else finish
         | NInt \<Rightarrow>
             if is_digit c then Some (InNumber NInt (a\<lparr>mant := 10 * mant a + digit_of c\<rparr>), toks)
             else if c = 0x2E then Some (InNumber NDot a, toks)
             else if is_e then Some (InNumber NE a, toks)
             else finish
         | NDot \<Rightarrow>
             if is_digit c
             then Some (InNumber NFrac (a\<lparr>mant := 10 * mant a + digit_of c, scale := scale a + 1\<rparr>), toks)
             else None
         | NFrac \<Rightarrow>
             if is_digit c
             then Some (InNumber NFrac (a\<lparr>mant := 10 * mant a + digit_of c, scale := scale a + 1\<rparr>), toks)
             else if is_e then Some (InNumber NE a, toks)
             else finish
         | NE \<Rightarrow>
             if c = 0x2B then Some (InNumber NESign a, toks)
             else if c = 0x2D then Some (InNumber NESign (a\<lparr>eneg := True\<rparr>), toks)
             else if is_digit c then Some (InNumber NExp (a\<lparr>expo := digit_of c\<rparr>), toks)
             else None
         | NESign \<Rightarrow>
             if is_digit c then Some (InNumber NExp (a\<lparr>expo := digit_of c\<rparr>), toks)
             else None
         | NExp \<Rightarrow>
             if is_digit c then Some (InNumber NExp (a\<lparr>expo := 10 * expo a + digit_of c\<rparr>), toks)
             else finish)"

definition lex_step :: "lex_mode \<Rightarrow> token list \<Rightarrow> 16 word \<Rightarrow> (lex_mode \<times> token list) option" where
  "lex_step m toks c =
     (case m of
        Top \<Rightarrow> top_step toks c
      | InLiteral rest t \<Rightarrow>
          (case rest of
             [] \<Rightarrow> None
           | x # xs \<Rightarrow>
               if c = x then (if xs = [] then Some (Top, t # toks) else Some (InLiteral xs t, toks))
               else None)
      | InString acc \<Rightarrow>
          if c = 0x22 then Some (Top, TString (rev acc) # toks)
          else if c = 0x5C then Some (InEscape acc, toks)
          else if c < 0x20 then None
          else Some (InString (c # acc), toks)
      | InEscape acc \<Rightarrow>
          if c = 0x75 then Some (InHex acc 0 0, toks)
          else (case escape_unit c of
                  None \<Rightarrow> None
                | Some u \<Rightarrow> Some (InString (u # acc), toks))
      | InHex acc k v \<Rightarrow>
          (case hex_value c of
             None \<Rightarrow> None
           | Some d \<Rightarrow>
               if k = 3 then Some (InString (of_nat (16 * v + d) # acc), toks)
               else Some (InHex acc (Suc k) (16 * v + d), toks))
      | InNumber p a \<Rightarrow> num_step p a toks c)"

fun lex_run :: "lex_mode \<Rightarrow> token list \<Rightarrow> jsstring \<Rightarrow> token list option" where
  "lex_run m toks [] =
     (case m of
        Top \<Rightarrow> Some (rev toks)
      | InNumber p a \<Rightarrow>
          if p = NZero \<or> p = NInt \<or> p = NFrac \<or> p = NExp then Some (rev (num_token a # toks))
          else None
      | _ \<Rightarrow> None)"
| "lex_run m toks (c # cs) =
     (case lex_step m toks c of
        None \<Rightarrow> None
      | Some (m', toks') \<Rightarrow> lex_run m' toks' cs)"

text \<open>
  The parser reads one token at a time and keeps the open arrays and objects on a
  stack: an array with its elements so far, last first; an object with its members so
  far and the key whose value is being read.
\<close>

datatype frame =
    ArrayFrame "json list"
  | ObjectFrame "(jsstring \<times> json) list" jsstring

datatype parse_mode = PValue | PArrayStart | PObjectStart | PKey | PColon | PDone json

definition begin_value :: "frame list \<Rightarrow> token \<Rightarrow> (parse_mode \<times> frame list) option" where
  "begin_value st t =
     (case t of
        TString s \<Rightarrow> Some (PDone (JString s), st)
      | TNumber m e \<Rightarrow> Some (PDone (JNumber m e), st)
      | TTrue \<Rightarrow> Some (PDone (JBool True), st)
      | TFalse \<Rightarrow> Some (PDone (JBool False), st)
      | TNull \<Rightarrow> Some (PDone JNull, st)
      | TLBracket \<Rightarrow> Some (PArrayStart, ArrayFrame [] # st)
      | TLBrace \<Rightarrow> Some (PObjectStart, ObjectFrame [] [] # st)
      | _ \<Rightarrow> None)"

definition read_key :: "frame list \<Rightarrow> token \<Rightarrow> (parse_mode \<times> frame list) option" where
  "read_key st t =
     (case (t, st) of
        (TString k, ObjectFrame ms k0 # st') \<Rightarrow> Some (PColon, ObjectFrame ms k # st')
      | _ \<Rightarrow> None)"

definition parse_step :: "parse_mode \<Rightarrow> frame list \<Rightarrow> token \<Rightarrow> (parse_mode \<times> frame list) option" where
  "parse_step m st t =
     (case m of
        PValue \<Rightarrow> begin_value st t
      | PArrayStart \<Rightarrow>
          (case (t, st) of
             (TRBracket, ArrayFrame es # st') \<Rightarrow> Some (PDone (JArray (rev es)), st')
           | _ \<Rightarrow> begin_value st t)
      | PObjectStart \<Rightarrow>
          (case (t, st) of
             (TRBrace, ObjectFrame ms k0 # st') \<Rightarrow> Some (PDone (JObject ms), st')
           | _ \<Rightarrow> read_key st t)
      | PKey \<Rightarrow> read_key st t
      | PColon \<Rightarrow> (case t of TColon \<Rightarrow> Some (PValue, st) | _ \<Rightarrow> None)
      | PDone v \<Rightarrow>
          (case st of
             [] \<Rightarrow> None
           | ArrayFrame es # st' \<Rightarrow>
               (case t of
                  TComma \<Rightarrow> Some (PValue, ArrayFrame (v # es) # st')
                | TRBracket \<Rightarrow> Some (PDone (JArray (rev (v # es))), st')
                | _ \<Rightarrow> None)
           | ObjectFrame ms k # st' \<Rightarrow>
               (case t of
                  TComma \<Rightarrow> Some (PKey, ObjectFrame (define_prop ms k v) k # st')
                | TRBrace \<Rightarrow> Some (PDone (JObject (define_prop ms k v)), st')
                | _ \<Rightarrow> None)))"

fun parse_tokens :: "parse_mode \<Rightarrow> frame list \<Rightarrow> token list \<Rightarrow> json option" where
  "parse_tokens m st [] = (case (m, st) of (PDone v, []) \<Rightarrow> Some v | _ \<Rightarrow> None)"
| "parse_tokens m st (t # ts) =
     (case parse_step m st t of
        None \<Rightarrow> None
      | Some (m', st') \<Rightarrow> parse_tokens m' st' ts)"

datatype js_error = SyntaxError | QuotaExceededError

definition JSON_parse :: "jsstring \<Rightarrow> js_error + json" where
  "JSON_parse text =
     (case lex_run Top [] text of
        None \<Rightarrow> Inl SyntaxError
      | Some toks \<Rightarrow>
          (case parse_tokens PValue [] toks of
             None \<Rightarrow> Inl SyntaxError
           | Some v \<Rightarrow> Inr v))"

section \<open>localStorage\<close>

text \<open>
  The store keeps string items for the origin. \<^verbatim>\<open>setItem\<close> throws
  QuotaExceededError when the items would no longer fit the origin's quota, counted
  here in code units of keys and values; the store is then unchanged.
\<close>

record storage =
  items :: "(jsstring \<times> jsstring) list"
  quota :: nat

definition getItem :: "storage \<Rightarrow> jsstring \<Rightarrow> jsstring option" where
  "getItem st k = map_of (items st) k"

definition put_item :: "jsstring \<Rightarrow> jsstring \<Rightarrow> (jsstring \<times> jsstring) list \<Rightarrow> (jsstring \<times> jsstring) list" where
  "put_item k v its =
     (if k \<in> set (map fst its) then map (\<lambda>p. if fst p = k then (k, v) else p) its
      else its @ [(k, v)])"

definition storage_size :: "(jsstring \<times> jsstring) list \<Rightarrow> nat" where
  "storage_size its = sum_list (map (\<lambda>p. length (fst p) + length (snd p)) its)"

definition setItem :: "storage \<Rightarrow> jsstring \<Rightarrow> jsstring \<Rightarrow> js_error + storage" where
  "setItem st k v =
     (let its = put_item k v (items st)
      in if storage_size its \<le> quota st then Inr (st\<lparr>items := its\<rparr>)
         else Inl QuotaExceededError)"

section \<open>The page\<close>

text \<open>
  An element of class \<^verbatim>\<open>favourite-button\<close>: whether its class list has
  \<^verbatim>\<open>active\<close>, its \<^verbatim>\<open>data-stop-id\<close> attribute, its title, its markup, and
  the arguments its click listener passes to \<^verbatim>\<open>toggleFavourite\<close>, if it has one.
\<close>

record toggle_button =
  btn_active :: bool
  btn_stop_id :: "jsstring option"
  btn_title :: jsstring
  btn_html :: jsstring
  btn_click :: "(jsstring \<times> jsstring) option"

text \<open>
  A favourite card: the markup that \<^verbatim>\<open>renderFavourites\<close> places between
  \<^verbatim>\<open><h3>\<close> and \<^verbatim>\<open></h3>\<close>, which is the stop name as stored, not
  escaped; the elements of class \<^verbatim>\<open>favourite-button\<close> that the browser built
  inside the card when it parsed the markup assigned to \<^verbatim>\<open>innerHTML\<close>; and
  the stop identifier and name that the card's click listener closes over.
\<close>

record card =
  card_heading :: jsstring
  card_buttons :: "toggle_button list"
  card_click :: "jsstring \<times> jsstring"

text \<open>The \<^verbatim>\<open>h2\<close> of the bus-times view: its text and the toggle controls in it.\<close>

record heading =
  h_text :: jsstring
  h_buttons :: "toggle_button list"

text \<open>
  The manager's field \<^verbatim>\<open>this.favourites\<close> and everything of the page that its
  methods read or write: the store; the cards in the element \<^verbatim>\<open>favourites-list\<close>;
  the inline \<^verbatim>\<open>display\<close> of the element \<^verbatim>\<open>favourites-section\<close>; the
  first \<^verbatim>\<open>h2\<close> in \<^verbatim>\<open>#bus-times\<close>; the elements of class
  \<^verbatim>\<open>favourite-button\<close> anywhere else in the document; and what
  \<^verbatim>\<open>new URLSearchParams(window.location.search).get('stop_id')\<close> returns.
  An element that the page may lack is an option.

  The last field is the browser's HTML parser, as far as the methods can observe it:
  for a markup assigned to the \<^verbatim>\<open>innerHTML\<close> of a card, the elements of
  class \<^verbatim>\<open>favourite-button\<close> in the fragment that the parser builds from
  it. Nothing is assumed about it: markup in a stop name or identifier may leave the
  card without a button, or with several, or with another \<^verbatim>\<open>data-stop-id\<close>.
\<close>

record world =
  favourites :: object
  localStorage :: storage
  favourites_list :: "card list option"
  favourites_section :: "jsstring option"
  bus_times_header :: "heading option"
  other_buttons :: "toggle_button list"
  search_stop_id :: "jsstring option"
  html_buttons :: "jsstring \<Rightarrow> toggle_button list"

section \<open>FavouritesManager\<close>

definition storage_key :: jsstring where
  "storage_key = js ''busStopFavourites''"

text \<open>
  \<^verbatim>\<open>loadFavourites\<close>: a stored text that is \<^verbatim>\<open>null\<close> or empty is falsy and
  gives the empty object; any other text goes to \<^verbatim>\<open>JSON.parse\<close>, whose
  exception nothing catches.
\<close>

definition loadFavourites :: "world \<Rightarrow> js_error + json" where
  "loadFavourites w =
     (case getItem (localStorage w) storage_key of
        None \<Rightarrow> Inr (JObject [])
      | Some stored \<Rightarrow> if stored = [] then Inr (JObject []) else JSON_parse stored)"

text \<open>
  The methods that write return the exception that left them, if any, and the state
  they left behind.
\<close>

definition saveFavourites :: "world \<Rightarrow> js_error option \<times> world" where
  "saveFavourites w =
     (case setItem (localStorage w) storage_key (JSON_stringify (favourites w)) of
        Inl e \<Rightarrow> (Some e, w)
      | Inr st \<Rightarrow> (None, w\<lparr>localStorage := st\<rparr>))"

text \<open>The markup of the star.\<close>

definition star_icon :: jsstring where
  "star_icon = js ''<i class='' @ [0x22] @ js ''fas fa-star'' @ [0x22] @ js ''></i>''"

text \<open>
  The template literal that \<^verbatim>\<open>renderFavourites\<close> assigns to the
  \<^verbatim>\<open>innerHTML\<close> of a card, with its line breaks and indentation, the name
  and the identifier put in as they are.
\<close>

definition card_markup :: "jsstring \<Rightarrow> jsstring \<Rightarrow> jsstring" where
  "card_markup stopId stopName =
     [0x0A] @ replicate 16 0x20 @ js ''<h3>'' @ stopName @ js ''</h3>''
     @ [0x0A] @ replicate 16 0x20
     @ js ''<button class=\"favourite-button active\" data-stop-id=\"'' @ stopId
     @ js ''\" title=\"Remove from favourites\">''
     @ [0x0A] @ replicate 20 0x20 @ star_icon
     @ [0x0A] @ replicate 16 0x20 @ js ''</button>''
     @ [0x0A] @ replicate 12 0x20"

text \<open>
  The card of an entry, given the parser: its buttons are whatever the parser builds
  from the markup.
\<close>

definition make_card :: "(jsstring \<Rightarrow> toggle_button list) \<Rightarrow> jsstring \<times> jsstring \<Rightarrow> card" where
  "make_card parse e =
     (case e of (stopId, stopName) \<Rightarrow>
        \<lparr>card_heading = stopName,
         card_buttons = parse (card_markup stopId stopName),
         card_click = (stopId, stopName)\<rparr>)"

text \<open>
  \<^verbatim>\<open>renderFavourites\<close> returns at once without the list element; otherwise it
  replaces the cards and then, if the section element exists, sets its display.
\<close>

definition renderFavourites :: "world \<Rightarrow> world" where
  "renderFavourites w =
     (case favourites_list w of
        None \<Rightarrow> w
      | Some old \<Rightarrow>
          (let w1 = w\<lparr>favourites_list := Some (map (make_card (html_buttons w)) (Object_entries (favourites w)))\<rparr>
           in case favourites_section w1 of
                None \<Rightarrow> w1
              | Some d \<Rightarrow>
                  w1\<lparr>favourites_section :=
                        Some (if length (Object_keys (favourites w1)) \<noteq> 0 then js ''block''
                              else js ''none'')\<rparr>))"

text \<open>
  \<^verbatim>\<open>updateFavouriteButtons\<close> visits every element of the class in the document.
  A button without the data attribute has \<^verbatim>\<open>dataset.stopId\<close> undefined, which as
  a property key is the string \<^verbatim>\<open>undefined\<close>.
\<close>

definition update_button :: "object \<Rightarrow> toggle_button \<Rightarrow> toggle_button" where
  "update_button favs b =
     (let stopId = (case btn_stop_id b of None \<Rightarrow> js ''undefined'' | Some s \<Rightarrow> s)
      in b\<lparr>btn_active := truthy (get_prop favs stopId), btn_html := star_icon\<rparr>)"

definition updateFavouriteButtons :: "world \<Rightarrow> world" where
  "updateFavouriteButtons w =
     w\<lparr>favourites_list :=
         map_option (map (\<lambda>c. c\<lparr>card_buttons := map (update_button (favourites w)) (card_buttons c)\<rparr>))
           (favourites_list w),
       bus_times_header :=
         map_option (\<lambda>h. h\<lparr>h_buttons := map (update_button (favourites w)) (h_buttons h)\<rparr>)
           (bus_times_header w),
       other_buttons := map (update_button (favourites w)) (other_buttons w)\<rparr>"

text \<open>
  \<^verbatim>\<open>toggleFavourite\<close> changes the object first; an exception of the save leaves
  the change in place and skips the render and the update of the buttons.
\<close>

definition toggleFavourite :: "jsstring \<Rightarrow> jsstring \<Rightarrow> world \<Rightarrow> js_error option \<times> world" where
  "toggleFavourite stopId stopName w =
     (let w1 = (if truthy (get_prop (favourites w) stopId)
                then w\<lparr>favourites := delete_prop (favourites w) stopId\<rparr>
                else w\<lparr>favourites := assign_prop (favourites w) stopId stopName\<rparr>)
      in case saveFavourites w1 of
           (Some e, w2) \<Rightarrow> (Some e, w2)
         | (None, w2) \<Rightarrow> (None, updateFavouriteButtons (renderFavourites w2)))"

text \<open>
  \<^verbatim>\<open>document.querySelector('.favourite-button')\<close> finds an element: in a
  card, in the heading, or elsewhere in the document.
\<close>

definition has_favourite_button :: "world \<Rightarrow> bool" where
  "has_favourite_button w =
     ((case favourites_list w of
         None \<Rightarrow> False
       | Some cs \<Rightarrow> list_ex (\<lambda>c. card_buttons c \<noteq> []) cs)
      \<or> (case bus_times_header w of None \<Rightarrow> False | Some h \<Rightarrow> h_buttons h \<noteq> [])
      \<or> other_buttons w \<noteq> [])"

text \<open>The button that the binder creates and appends to the heading.\<close>

definition new_button :: "object \<Rightarrow> jsstring \<Rightarrow> jsstring \<Rightarrow> toggle_button" where
  "new_button favs stopId stopName =
     \<lparr>btn_active = truthy (get_prop favs stopId),
      btn_stop_id = Some stopId,
      btn_title = (if truthy (get_prop favs stopId) then js ''Remove from favourites''
                   else js ''Add to favourites''),
      btn_html = star_icon,
      btn_click = Some (stopId, stopName)\<rparr>"

definition addFavouriteButtonToBusTimes :: "world \<Rightarrow> world" where
  "addFavouriteButtonToBusTimes w =
     (case bus_times_header w of
        None \<Rightarrow> w
      | Some busTimesHeader \<Rightarrow>
          (let stopName = String_trim (String_replace (js ''Upcoming Buses at '') [] (h_text busTimesHeader))
           in case search_stop_id w of
                None \<Rightarrow> w
              | Some stopId \<Rightarrow>
                  if stopId = [] then w
                  else if has_favourite_button w then w
                  else w\<lparr>bus_times_header :=
                           Some (busTimesHeader\<lparr>h_buttons :=
                                   h_buttons busTimesHeader @ [new_button (favourites w) stopId stopName]\<rparr>)\<rparr>))"

section \<open>Reading the favourites back\<close>

text \<open>
  The tokens of the text that \<^verbatim>\<open>JSON.stringify\<close> writes for the members of the
  favourites object, and the value that \<^verbatim>\<open>JSON.parse\<close> builds for the object.
\<close>

fun members_tokens :: "object \<Rightarrow> token list" where
  "members_tokens [] = []"
| "members_tokens [p] = [TString (fst p), TColon, TString (snd p)]"
| "members_tokens (p # q # ps) =
     [TString (fst p), TColon, TString (snd p), TComma] @ members_tokens (q # ps)"

text \<open>The favourites object as a value of \<^verbatim>\<open>JSON.parse\<close>.\<close>

definition as_json :: "object \<Rightarrow> json" where
  "as_json obj = JObject (map (\<lambda>p. (fst p, JString (snd p))) obj)"

text \<open>
  The order of the own property keys of an object: every array index comes before
  every other key, and the array indices ascend. A list of properties is the listing
  of an object when its keys are in this order and distinct.
\<close>

fun own_order :: "jsstring list \<Rightarrow> bool" where
  "own_order [] = True"
| "own_order (k # ks) =
     ((if is_array_index k
       then list_all (\<lambda>j. if is_array_index j then digits_value k < digits_value j else True) ks
       else list_all (\<lambda>j. \<not> is_array_index j) ks)
      \<and> own_order ks)"

definition well_formed :: "object \<Rightarrow> bool" where
  "well_formed obj = (own_order (map fst obj) \<and> distinct (map fst obj))"

section \<open>Sequences of toggles and what the user sees\<close>

text \<open>
  The section is shown unless its inline \<^verbatim>\<open>display\<close> is \<^verbatim>\<open>none\<close>.
\<close>

definition section_visible :: "world \<Rightarrow> bool" where
  "section_visible w =
     (case favourites_section w of None \<Rightarrow> False | Some d \<Rightarrow> d \<noteq> js ''none'')"

text \<open>
  The clicks of a session, one call of \<^verbatim>\<open>toggleFavourite\<close> each. An exception
  ends the handler of that click only; the next click finds the state it left.
\<close>

fun toggle_trace :: "(jsstring \<times> jsstring) list \<Rightarrow> world \<Rightarrow> (js_error option \<times> world) list" where
  "toggle_trace [] w = []"
| "toggle_trace (t # ts) w =
     (let r = toggleFavourite (fst t) (snd t) w in r # toggle_trace ts (snd r))"

section \<open>Example pages\<close>

text \<open>
  The button that a browser builds from the card template when the name and the
  identifier have no character that ends the text of the \<^verbatim>\<open>h3\<close> or the
  value of the attribute.
\<close>

definition template_button :: "jsstring \<Rightarrow> toggle_button" where
  "template_button stopId =
     \<lparr>btn_active = True, btn_stop_id = Some stopId,
      btn_title = js ''Remove from favourites'',
      btn_html = [0x0A] @ replicate 20 0x20 @ star_icon @ [0x0A] @ replicate 16 0x20,
      btn_click = None\<rparr>"

text \<open>
  The browser of the example pages, given by what it builds from the markup of the
  four cards that the examples render: in each the one button of the template (in the
  third the \<^verbatim>\<open>i\<close> element stays inside the \<^verbatim>\<open>h3\<close>). The examples
  parse no other markup.
\<close>

definition example_browser :: "jsstring \<Rightarrow> toggle_button list" where
  "example_browser markup =
     (if markup = card_markup (js ''5'') (js ''King St'') then [template_button (js ''5'')]
      else if markup = card_markup (js ''101'') (js ''Main St Station'')
        then [template_button (js ''101'')]
      else if markup = card_markup (js ''1'') (js ''<i>x</i>'') then [template_button (js ''1'')]
      else if markup = card_markup (js ''101'') [] then [template_button (js ''101'')]
      else [])"

text \<open>
  A page with an empty favourites list, a hidden favourites section, no bus-times
  heading yet, no \<^verbatim>\<open>stop_id\<close> in the address, and an empty store of 5 MiB.
\<close>

definition bare_page :: world where
  "bare_page =
     \<lparr>favourites = [],
      localStorage = \<lparr>items = [], quota = 5242880\<rparr>,
      favourites_list = Some [],
      favourites_section = Some (js ''none''),
      bus_times_header = None,
      other_buttons = [],
      search_stop_id = None,
      html_buttons = example_browser\<rparr>"

definition page_without_elements :: world where
  "page_without_elements = bare_page\<lparr>favourites_list := None, favourites_section := None\<rparr>"

definition page_without_list :: world where
  "page_without_list = bare_page\<lparr>favourites_list := None\<rparr>"

definition main_st_heading :: heading where
  "main_st_heading = \<lparr>h_text = js ''Upcoming Buses at Main St Station'', h_buttons = []\<rparr>"

text \<open>The bus-times view was swapped in, the address has no \<^verbatim>\<open>stop_id\<close>.\<close>

definition stop_page :: world where
  "stop_page = bare_page\<lparr>bus_times_header := Some main_st_heading\<rparr>"

text \<open>The bus-times view of stop 101, no favourite stored.\<close>

definition stop_101_page :: world where
  "stop_101_page = stop_page\<lparr>search_stop_id := Some (js ''101'')\<rparr>"

text \<open>The same view when King St is a favourite and its card has been rendered.\<close>

definition king_st_page :: world where
  "king_st_page = bare_page\<lparr>favourites := [(js ''5'', js ''King St'')]\<rparr>"

definition stop_101_with_card :: world where
  "stop_101_with_card =
     renderFavourites (stop_101_page\<lparr>favourites := [(js ''5'', js ''King St'')]\<rparr>)"

text \<open>Stores: one that holds the favourites of King St, one that holds text that is
  not JSON, one without room (as in a private window), one with room for little.\<close>

definition stored_page :: world where
  "stored_page =
     bare_page\<lparr>localStorage :=
       \<lparr>items = [(storage_key, js ''{\"5\":\"King St\"}'')], quota = 5242880\<rparr>\<rparr>"

definition corrupt_page :: world where
  "corrupt_page =
     bare_page\<lparr>localStorage := \<lparr>items = [(storage_key, js ''not json'')], quota = 5242880\<rparr>\<rparr>"

definition full_page :: world where
  "full_page = bare_page\<lparr>localStorage := \<lparr>items = [], quota = 0\<rparr>\<rparr>"

definition tight_page :: world where
  "tight_page = bare_page\<lparr>localStorage := \<lparr>items = [(storage_key, js ''{}'')], quota = 30\<rparr>\<rparr>"

text \<open>A favourite whose stored name has markup characters.\<close>

definition markup_page :: world where
  "markup_page = bare_page\<lparr>favourites := [(js ''1'', js ''<i>x</i>'')]\<rparr>"

section \<open>Properties of the favourites object\<close>

lemma map_of_delete_prop:
  "map_of (delete_prop obj x) y = (if y = x then None else map_of obj y)"
  by (induction obj) (auto simp: delete_prop_def)

lemma map_of_insert_index_other:
  "y \<noteq> k \<Longrightarrow> map_of (insert_index k v obj) y = map_of obj y"
  by (induction obj) auto

lemma map_of_insert_index_same:
  "k \<notin> set (map fst obj) \<Longrightarrow> map_of (insert_index k v obj) k = Some v"
  by (induction obj) auto

lemma map_of_replace:
  "map_of (map (\<lambda>p. if fst p = k then (k, v) else p) obj) y =
     (if y = k \<and> k \<in> set (map fst obj) then Some v else map_of obj y)"
  by (induction obj) force+

lemma map_of_define_prop:
  "map_of (define_prop obj k v) y = (if y = k then Some v else map_of obj y)"
proof (cases "y = k")
  case True
  show ?thesis
  proof (cases "k \<in> set (map fst obj)")
    case True
    with \<open>y = k\<close> show ?thesis by (simp add: define_prop_def map_of_replace)
  next
    case False
    then have "map_of obj k = None" by (simp add: map_of_eq_None_iff)
    with False \<open>y = k\<close> show ?thesis
      by (simp add: define_prop_def map_of_insert_index_same map_add_def)
  qed
next
  case False
  then show ?thesis
    by (auto simp: define_prop_def map_of_replace map_of_insert_index_other map_add_def
          split: option.splits)
qed

lemma map_of_assign_prop_other:
  "y \<noteq> k \<Longrightarrow> map_of (assign_prop obj k v) y = map_of obj y"
  by (simp add: assign_prop_def map_of_define_prop)

text \<open>
  When every stored name is non-empty and the key is not a name that
  \<^verbatim>\<open>Object.prototype\<close> has, the test \<^verbatim>\<open>if (obj[k])\<close> is the test for an own
  property.
\<close>

lemma truthy_iff_member:
  assumes "list_all (\<lambda>p. snd p \<noteq> []) obj" and "k \<notin> set Object_prototype_names"
  shows "truthy (get_prop obj k) \<longleftrightarrow> k \<in> set (Object_keys obj)"
proof (cases "map_of obj k")
  case None
  then have "k \<notin> set (map fst obj)" by (simp add: map_of_eq_None_iff)
  with None assms(2) show ?thesis by (simp add: get_prop_def Object_keys_def)
next
  case (Some v)
  then have m: "(k, v) \<in> set obj" by (rule map_of_SomeD)
  with assms(1) have "v \<noteq> []" by (auto simp: list_all_iff)
  moreover from m have "k \<in> set (map fst obj)" by force
  ultimately show ?thesis using Some by (simp add: get_prop_def Object_keys_def)
qed

section \<open>What each method leaves alone\<close>

lemma favourites_saveFavourites: "favourites (snd (saveFavourites w)) = favourites w"
  by (simp add: saveFavourites_def split: sum.splits)

lemma favourites_renderFavourites: "favourites (renderFavourites w) = favourites w"
  by (simp add: renderFavourites_def Let_def split: option.splits)

lemma favourites_updateFavouriteButtons: "favourites (updateFavouriteButtons w) = favourites w"
  by (simp add: updateFavouriteButtons_def)

lemma localStorage_renderFavourites: "localStorage (renderFavourites w) = localStorage w"
  by (simp add: renderFavourites_def Let_def split: option.splits)

lemma localStorage_updateFavouriteButtons:
  "localStorage (updateFavouriteButtons w) = localStorage w"
  by (simp add: updateFavouriteButtons_def)

lemma favourites_toggleFavourite:
  "favourites (snd (toggleFavourite x n w)) =
     (if truthy (get_prop (favourites w) x) then delete_prop (favourites w) x
      else assign_prop (favourites w) x n)"
  by (simp add: toggleFavourite_def Let_def saveFavourites_def
        favourites_renderFavourites favourites_updateFavouriteButtons split: sum.splits)

lemma toggleFavourite_elements:
  "(favourites_list (snd (toggleFavourite x n w)) = None \<longleftrightarrow> favourites_list w = None) \<and>
   (favourites_section (snd (toggleFavourite x n w)) = None \<longleftrightarrow> favourites_section w = None)"
  by (simp add: toggleFavourite_def Let_def saveFavourites_def setItem_def
        updateFavouriteButtons_def renderFavourites_def split: option.splits)

section \<open>Writing to the store\<close>

lemma map_of_put_item: "map_of (put_item k v its) k = Some v"
proof (cases "k \<in> set (map fst its)")
  case True
  then show ?thesis by (simp add: put_item_def map_of_replace)
next
  case False
  then have "map_of its k = None" by (simp add: map_of_eq_None_iff)
  with False show ?thesis by (simp add: put_item_def map_add_def)
qed

lemma saveFavourites_cases:
  "(saveFavourites w =
      (None, w\<lparr>localStorage := (localStorage w)\<lparr>items :=
                 put_item storage_key (JSON_stringify (favourites w)) (items (localStorage w))\<rparr>\<rparr>))
   \<or> saveFavourites w = (Some QuotaExceededError, w)"
  by (simp add: saveFavourites_def setItem_def Let_def)

lemma saveFavourites_ok:
  "fst (saveFavourites w) = None \<Longrightarrow>
     getItem (localStorage (snd (saveFavourites w))) storage_key =
       Some (JSON_stringify (favourites w))"
  using saveFavourites_cases [of w] by (auto simp: getItem_def map_of_put_item)

lemma saveFavourites_fail:
  "fst (saveFavourites w) \<noteq> None \<Longrightarrow>
     fst (saveFavourites w) = Some QuotaExceededError \<and> snd (saveFavourites w) = w"
  using saveFavourites_cases [of w] by auto

text \<open>
  \<^verbatim>\<open>toggleFavourite\<close> changes the object, saves it, and goes on to render only
  when the save did not throw.
\<close>

lemma toggleFavourite_ok:
  assumes "fst (toggleFavourite x n w) = None"
  shows "getItem (localStorage (snd (toggleFavourite x n w))) storage_key =
           Some (JSON_stringify (favourites (snd (toggleFavourite x n w))))"
proof -
  define w1 where "w1 = (if truthy (get_prop (favourites w) x)
                then w\<lparr>favourites := delete_prop (favourites w) x\<rparr>
                else w\<lparr>favourites := assign_prop (favourites w) x n\<rparr>)"
  have t: "toggleFavourite x n w =
     (case saveFavourites w1 of
           (Some e, w2) \<Rightarrow> (Some e, w2)
         | (None, w2) \<Rightarrow> (None, updateFavouriteButtons (renderFavourites w2)))"
    by (simp add: toggleFavourite_def w1_def)
  obtain e w2 where s: "saveFavourites w1 = (e, w2)" by (cases "saveFavourites w1")
  with assms t have e: "e = None" by (cases e) auto
  with s have "getItem (localStorage w2) storage_key = Some (JSON_stringify (favourites w1))"
    using saveFavourites_ok [of w1] by simp
  moreover have "favourites w2 = favourites w1"
    using favourites_saveFavourites [of w1] s by simp
  ultimately show ?thesis
    by (simp add: t s e localStorage_renderFavourites localStorage_updateFavouriteButtons
          favourites_renderFavourites favourites_updateFavouriteButtons)
qed

lemma toggleFavourite_fail:
  assumes "fst (toggleFavourite x n w) \<noteq> None"
  shows "fst (toggleFavourite x n w) = Some QuotaExceededError \<and>
         localStorage (snd (toggleFavourite x n w)) = localStorage w"
proof -
  define w1 where "w1 = (if truthy (get_prop (favourites w) x)
                then w\<lparr>favourites := delete_prop (favourites w) x\<rparr>
                else w\<lparr>favourites := assign_prop (favourites w) x n\<rparr>)"
  have t: "toggleFavourite x n w =
     (case saveFavourites w1 of
           (Some e, w2) \<Rightarrow> (Some e, w2)
         | (None, w2) \<Rightarrow> (None, updateFavouriteButtons (renderFavourites w2)))"
    by (simp add: toggleFavourite_def w1_def)
  obtain e w2 where s: "saveFavourites w1 = (e, w2)" by (cases "saveFavourites w1")
  with assms t have e: "e \<noteq> None" by (cases e) auto
  with s have "e = Some QuotaExceededError \<and> w2 = w1"
    using saveFavourites_fail [of w1] by simp
  moreover have "localStorage w1 = localStorage w" by (simp add: w1_def)
  ultimately show ?thesis by (simp add: t s)
qed

section \<open>Adding a key and removing it again\<close>

lemma filter_absent_key:
  "k \<notin> set (map fst obj) \<Longrightarrow> filter (\<lambda>p. fst p \<noteq> k) obj = obj"
  by (induction obj) auto

lemma delete_insert_index:
  "k \<notin> set (map fst obj) \<Longrightarrow> delete_prop (insert_index k v obj) k = obj"
  by (induction obj) (auto simp: delete_prop_def filter_absent_key)

lemma delete_define_prop:
  assumes "k \<notin> set (map fst obj)"
  shows "delete_prop (define_prop obj k v) k = obj"
  using assms filter_absent_key [OF assms]
  by (simp add: define_prop_def delete_insert_index) (simp add: delete_prop_def)

text \<open>
  For a stop that has no entry, whose identifier \<^verbatim>\<open>Object.prototype\<close> does not
  have as a property name, and a name that is not empty, two toggles give back the
  object as it was, entry for entry and in the same order.
\<close>

lemma toggle_twice_restores:
  assumes "x \<notin> set (Object_keys (favourites w))" and "x \<notin> set Object_prototype_names"
    and "name \<noteq> []"
  shows "favourites (snd (toggleFavourite x name' (snd (toggleFavourite x name w)))) = favourites w"
proof -
  have none: "map_of (favourites w) x = None"
    using assms(1) by (simp add: Object_keys_def map_of_eq_None_iff)
  have p: "x \<noteq> js ''__proto__''"
    using assms(2) by (auto simp: Object_prototype_names_def)
  have first: "favourites (snd (toggleFavourite x name w)) = define_prop (favourites w) x name"
    using none p assms(2) by (simp add: favourites_toggleFavourite get_prop_def assign_prop_def)
  have "truthy (get_prop (define_prop (favourites w) x name) x)"
    using assms(3) by (simp add: get_prop_def map_of_define_prop)
  then have "favourites (snd (toggleFavourite x name' (snd (toggleFavourite x name w)))) =
      delete_prop (define_prop (favourites w) x name) x"
    by (simp add: favourites_toggleFavourite [of x name' "snd (toggleFavourite x name w)"] first)
  also have "\<dots> = favourites w"
    using assms(1) by (simp add: delete_define_prop Object_keys_def)
  finally show ?thesis .
qed

text \<open>The keys of the object stay distinct.\<close>

lemma keys_insert_index:
  "fst ` set (insert_index k v obj) = insert k (fst ` set obj)"
  by (induction obj) auto

lemma distinct_insert_index:
  "distinct (map fst obj) \<Longrightarrow> k \<notin> fst ` set obj \<Longrightarrow>
     distinct (map fst (insert_index k v obj))"
  by (induction obj) (auto simp: keys_insert_index)

lemma map_fst_replace:
  "map fst (map (\<lambda>p. if fst p = k then (k, v) else p) obj) = map fst obj"
  by (induction obj) auto

lemma distinct_define_prop:
  assumes "distinct (map fst obj)"
  shows "distinct (map fst (define_prop obj k v))"
proof (cases "k \<in> set (map fst obj)")
  case True
  then have "define_prop obj k v = map (\<lambda>p. if fst p = k then (k, v) else p) obj"
    by (simp add: define_prop_def)
  then show ?thesis using assms by (simp only: map_fst_replace)
next
  case False
  with assms show ?thesis
    by (simp add: define_prop_def distinct_insert_index)
qed

lemma distinct_toggleFavourite:
  assumes "distinct (map fst (favourites w))"
  shows "distinct (map fst (favourites (snd (toggleFavourite x n w))))"
proof -
  have "distinct (map fst (delete_prop (favourites w) x))"
    using assms by (simp add: delete_prop_def distinct_map_filter)
  then show ?thesis
    using assms distinct_define_prop [OF assms]
    by (simp add: favourites_toggleFavourite assign_prop_def)
qed

section \<open>Rendering\<close>

lemma renderFavourites_cards:
  "favourites_list w \<noteq> None \<Longrightarrow>
     favourites_list (renderFavourites w) =
       Some (map (make_card (html_buttons w)) (Object_entries (favourites w)))"
  by (auto simp: renderFavourites_def Let_def split: option.splits)

lemma renderFavourites_section:
  "favourites_list w \<noteq> None \<Longrightarrow> favourites_section w \<noteq> None \<Longrightarrow>
   favourites_section (renderFavourites w) =
     Some (if favourites w = [] then js ''none'' else js ''block'')"
  by (auto simp: renderFavourites_def Let_def Object_keys_def)

lemma toggleFavourite_section:
  assumes "favourites_list w \<noteq> None" and "favourites_section w \<noteq> None"
    and "fst (toggleFavourite x n w) = None"
  shows "favourites_section (snd (toggleFavourite x n w)) =
           Some (if favourites (snd (toggleFavourite x n w)) = [] then js ''none''
                 else js ''block'')"
proof -
  define w1 where "w1 = (if truthy (get_prop (favourites w) x)
                then w\<lparr>favourites := delete_prop (favourites w) x\<rparr>
                else w\<lparr>favourites := assign_prop (favourites w) x n\<rparr>)"
  have t: "toggleFavourite x n w =
     (case saveFavourites w1 of
           (Some e, w2) \<Rightarrow> (Some e, w2)
         | (None, w2) \<Rightarrow> (None, updateFavouriteButtons (renderFavourites w2)))"
    by (simp add: toggleFavourite_def w1_def)
  obtain e w2 where s: "saveFavourites w1 = (e, w2)" by (cases "saveFavourites w1")
  with assms(3) t have e: "e = None" by (cases e) auto
  have w2: "favourites_list w2 \<noteq> None \<and> favourites_section w2 \<noteq> None
            \<and> favourites w2 = favourites w1"
    using s assms(1,2) by (auto simp: saveFavourites_def w1_def split: sum.splits)
  then have "favourites_section (renderFavourites w2) =
      Some (if favourites w2 = [] then js ''none'' else js ''block'')"
    by (simp add: renderFavourites_section)
  then show ?thesis
    by (simp add: t s e updateFavouriteButtons_def favourites_renderFavourites)
qed

lemma block_not_none: "js ''block'' \<noteq> js ''none''"
  by (simp add: js_def)

section \<open>The binder\<close>

lemma binder_has_button: "has_favourite_button w \<Longrightarrow> addFavouriteButtonToBusTimes w = w"
  by (simp add: addFavouriteButtonToBusTimes_def Let_def split: option.splits)

lemma funpow_fixed: "f x = x \<Longrightarrow> (f ^^ n) x = x"
  by (induction n) simp_all

lemma binder_first:
  assumes "bus_times_header w = Some h" and "search_stop_id w = Some stopId"
    and "stopId \<noteq> []" and "\<not> has_favourite_button w"
  shows "addFavouriteButtonToBusTimes w =
           w\<lparr>bus_times_header := Some (h\<lparr>h_buttons :=
               [new_button (favourites w) stopId
                  (String_trim (String_replace (js ''Upcoming Buses at '') [] (h_text h)))]\<rparr>)\<rparr>"
proof -
  from assms(1,4) have "h_buttons h = []" by (simp add: has_favourite_button_def)
  with assms show ?thesis by (simp add: addFavouriteButtonToBusTimes_def Let_def)
qed

section \<open>JSON.parse\<close>

lemma JSON_parse_empty: "JSON_parse [] = Inl SyntaxError"
  by (simp add: JSON_parse_def)

lemma JSON_parse_error: "JSON_parse s = Inl e \<Longrightarrow> e = SyntaxError"
  by (auto simp: JSON_parse_def split: option.splits)

section \<open>JSON.parse reads what JSON.stringify wrote\<close>

lemma hex_table: "list_all (\<lambda>k. hex_value (hex_digit k) = Some k) [0..<16]"
  by code_simp

lemma hex_value_hex_digit: "hex_value (hex_digit n) = Some (n mod 16)"
proof -
  have "n mod 16 \<in> set [0..<16]" by simp
  with hex_table have "hex_value (hex_digit (n mod 16)) = Some (n mod 16)"
    unfolding list_all_iff by blast
  then show ?thesis by (simp add: hex_digit_def)
qed

lemma hex_digits_value:
  fixes n :: nat
  assumes "n < 65536"
  shows "16 * (16 * (16 * (n div 4096 mod 16) + n div 256 mod 16) + n div 16 mod 16) + n mod 16 = n"
proof -
  define a where "a = n div 16"
  define b where "b = a div 16"
  define c where "c = b div 16"
  have b': "n div 256 = b" by (simp add: a_def b_def div_mult2_eq)
  have c': "n div 4096 = c" by (simp add: a_def b_def c_def div_mult2_eq)
  have "c < 16" using assms by (simp add: c'[symmetric] less_mult_imp_div_less)
  then have c16: "c mod 16 = c" by simp
  have "16 * c + b mod 16 = b" by (simp add: c_def)
  moreover have "16 * b + a mod 16 = a" by (simp add: b_def)
  moreover have "16 * a + n mod 16 = n" by (simp add: a_def)
  ultimately show ?thesis
    unfolding b' c' c16 a_def [symmetric] by simp
qed

lemma lex_unicode_escape:
  "lex_run (InString acc) toks (unicode_escape c @ rest) = lex_run (InString (c # acc)) toks rest"
proof -
  have "unat c < 65536" using unsigned_less [of c] by simp
  then have "(of_nat (16 * (16 * (16 * (unat c div 4096 mod 16) + unat c div 256 mod 16)
       + unat c div 16 mod 16) + unat c mod 16) :: 16 word) = c"
    by (simp only: hex_digits_value) simp
  then show ?thesis
    by (simp add: unicode_escape_def lex_step_def hex_value_hex_digit del: of_nat_add of_nat_mult)
qed


lemma lex_quote_unit:
  assumes "\<not> is_high_surrogate c" and "\<not> is_low_surrogate c"
  shows "lex_run (InString acc) toks (quote_unit c @ rest) = lex_run (InString (c # acc)) toks rest"
proof (cases "c = 0x08 \<or> c = 0x09 \<or> c = 0x0A \<or> c = 0x0C \<or> c = 0x0D \<or> c = 0x22 \<or> c = 0x5C")
  case True
  then show ?thesis
    by (auto simp: quote_unit_def lex_step_def escape_unit_def js_def)
next
  case False
  show ?thesis
  proof (cases "c < 0x20")
    case True
    with False show ?thesis by (simp add: quote_unit_def lex_unicode_escape)
  next
    case False
    with \<open>\<not> (c = 0x08 \<or> c = 0x09 \<or> c = 0x0A \<or> c = 0x0C \<or> c = 0x0D \<or> c = 0x22 \<or> c = 0x5C)\<close>
    show ?thesis by (simp add: quote_unit_def lex_step_def)
  qed
qed

lemma lex_surrogate:
  assumes "is_high_surrogate c \<or> is_low_surrogate c"
  shows "lex_run (InString acc) toks (c # rest) = lex_run (InString (c # acc)) toks rest"
proof -
  have "55296 \<le> unat c"
    using assms by (auto simp: is_high_surrogate_def is_low_surrogate_def word_le_nat_alt)
  then have "c \<noteq> 0x22" and "c \<noteq> 0x5C" and "\<not> c < 0x20"
    by (auto simp: word_less_nat_alt)
  then show ?thesis by (simp add: lex_step_def)
qed

lemma lex_quote_units:
  "lex_run (InString acc) toks (quote_units s @ rest) = lex_run (InString (rev s @ acc)) toks rest"
proof (induction s arbitrary: acc rule: quote_units.induct)
  case 1
  then show ?case by simp
next
  case (2 c)
  then show ?case by (simp add: lex_unicode_escape lex_quote_unit)
next
  case (3 c d cs)
  then show ?case
    by (simp add: lex_unicode_escape lex_quote_unit lex_surrogate del: lex_run.simps)
qed

lemma lex_QuoteJSONString:
  "lex_run Top toks (QuoteJSONString s @ rest) = lex_run Top (TString s # toks) rest"
  using lex_quote_units [of "[]" toks s "0x22 # rest"]
  by (simp add: QuoteJSONString_def lex_step_def top_step_def)


lemma lex_member:
  "lex_run Top toks (QuoteJSONString k @ js '':'' @ QuoteJSONString v @ rest) =
   lex_run Top (TString v # TColon # TString k # toks) rest"
proof -
  have "lex_run Top toks (QuoteJSONString k @ js '':'' @ QuoteJSONString v @ rest) =
        lex_run Top (TString k # toks) (js '':'' @ QuoteJSONString v @ rest)"
    by (rule lex_QuoteJSONString)
  also have "\<dots> = lex_run Top (TColon # TString k # toks) (QuoteJSONString v @ rest)"
    by (simp add: js_def lex_step_def top_step_def)
  also have "\<dots> = lex_run Top (TString v # TColon # TString k # toks) rest"
    by (rule lex_QuoteJSONString)
  finally show ?thesis .
qed

lemma lex_members:
  "lex_run Top toks
     (join_members (map (\<lambda>p. QuoteJSONString (fst p) @ js '':'' @ QuoteJSONString (snd p)) obj) @ rest) =
   lex_run Top (rev (members_tokens obj) @ toks) rest"
proof (induction obj arbitrary: toks rule: members_tokens.induct)
  case 1
  then show ?case by simp
next
  case (2 p)
  then show ?case by (simp add: lex_member)
next
  case (3 p q ps)
  have "lex_run Top (TString (snd p) # TColon # TString (fst p) # toks)
          (js '','' @ join_members (map (\<lambda>p. QuoteJSONString (fst p) @ js '':'' @ QuoteJSONString (snd p)) (q # ps)) @ rest)
        = lex_run Top (TComma # TString (snd p) # TColon # TString (fst p) # toks)
          (join_members (map (\<lambda>p. QuoteJSONString (fst p) @ js '':'' @ QuoteJSONString (snd p)) (q # ps)) @ rest)"
    by (simp add: js_def lex_step_def top_step_def)
  with 3 show ?case
    by (simp add: lex_member del: lex_run.simps)
qed

lemma lex_JSON_stringify:
  "lex_run Top [] (JSON_stringify obj) = Some (TLBrace # members_tokens obj @ [TRBrace])"
proof -
  have "lex_run Top [] (JSON_stringify obj) =
        lex_run Top [TLBrace]
          (join_members (map (\<lambda>p. QuoteJSONString (fst p) @ js '':'' @ QuoteJSONString (snd p)) obj) @ js ''}'')"
    by (simp add: JSON_stringify_def js_def lex_step_def top_step_def)
  also have "\<dots> = lex_run Top (rev (members_tokens obj) @ [TLBrace]) (js ''}'')"
    by (rule lex_members)
  also have "\<dots> = Some (TLBrace # members_tokens obj @ [TRBrace])"
    by (simp add: js_def lex_step_def top_step_def)
  finally show ?thesis .
qed


lemma parse_after_member:
  "parse_tokens (PDone (JString v)) (ObjectFrame ms k # st)
     (concat (map (\<lambda>p. [TComma, TString (fst p), TColon, TString (snd p)]) ps) @ TRBrace # ts) =
   parse_tokens
     (PDone (JObject (foldl (\<lambda>m p. define_prop m (fst p) (JString (snd p)))
                        (define_prop ms k (JString v)) ps))) st ts"
proof (induction ps arbitrary: ms k v)
  case Nil
  then show ?case by (simp add: parse_step_def)
next
  case (Cons p ps)
  then show ?case
    by (simp add: parse_step_def read_key_def begin_value_def)
qed

lemma members_tokens_Cons:
  "members_tokens (p # ps) =
     [TString (fst p), TColon, TString (snd p)]
     @ concat (map (\<lambda>p. [TComma, TString (fst p), TColon, TString (snd p)]) ps)"
  by (induction ps arbitrary: p) auto

lemma parse_members:
  "parse_tokens PValue [] (TLBrace # members_tokens obj @ [TRBrace]) =
   Some (JObject (foldl (\<lambda>m p. define_prop m (fst p) (JString (snd p))) [] obj))"
proof (cases obj)
  case Nil
  then show ?thesis by (simp add: parse_step_def begin_value_def)
next
  case (Cons p ps)
  have "parse_tokens PValue [] (TLBrace # members_tokens (p # ps) @ [TRBrace]) =
        parse_tokens (PDone (JString (snd p))) [ObjectFrame [] (fst p)]
          (concat (map (\<lambda>p. [TComma, TString (fst p), TColon, TString (snd p)]) ps) @ [TRBrace])"
    by (simp add: members_tokens_Cons parse_step_def begin_value_def read_key_def)
  also have "\<dots> = parse_tokens
     (PDone (JObject (foldl (\<lambda>m p. define_prop m (fst p) (JString (snd p)))
                        (define_prop [] (fst p) (JString (snd p))) ps))) [] []"
    by (rule parse_after_member)
  finally show ?thesis using Cons by simp
qed

lemma own_order_append: "own_order (xs @ ys) \<Longrightarrow> own_order xs"
  by (induction xs) (auto simp: list_all_iff)

lemma own_order_before_index:
  "own_order (ks @ [k]) \<Longrightarrow> is_array_index k \<Longrightarrow> a \<in> set ks \<Longrightarrow>
     is_array_index a \<and> digits_value a < digits_value k"
  by (induction ks) (auto simp: list_all_iff split: if_splits)

lemma insert_index_end:
  "(\<And>p. p \<in> set obj \<Longrightarrow> is_array_index (fst p) \<and> digits_value (fst p) < digits_value k) \<Longrightarrow>
     insert_index k v obj = obj @ [(k, v)]"
  by (induction obj) auto

lemma define_prop_end:
  assumes "own_order (map fst obj @ [k])" and "k \<notin> set (map fst obj)"
  shows "define_prop obj k v = obj @ [(k, v)]"
proof (cases "is_array_index k")
  case True
  have "insert_index k v obj = obj @ [(k, v)]"
  proof (rule insert_index_end)
    fix p assume "p \<in> set obj"
    then have "fst p \<in> set (map fst obj)" by simp
    with assms(1) True show "is_array_index (fst p) \<and> digits_value (fst p) < digits_value k"
      by (rule own_order_before_index)
  qed
  with True assms(2) show ?thesis by (simp add: define_prop_def)
next
  case False
  with assms(2) show ?thesis by (simp add: define_prop_def)
qed

lemma foldl_define_prop:
  assumes "own_order (map fst (pre @ post))" and "distinct (map fst (pre @ post))"
  shows "foldl (\<lambda>m p. define_prop m (fst p) (JString (snd p)))
           (map (\<lambda>p. (fst p, JString (snd p))) pre) post =
         map (\<lambda>p. (fst p, JString (snd p))) (pre @ post)"
  using assms
proof (induction post arbitrary: pre)
  case Nil
  then show ?case by simp
next
  case (Cons p ps)
  let ?g = "\<lambda>p. (fst p, JString (snd p))"
  have keys: "map fst (map ?g pre) = map fst pre" by simp
  have "own_order ((map fst pre @ [fst p]) @ map fst ps)" using Cons.prems(1) by simp
  then have "own_order (map fst pre @ [fst p])" by (rule own_order_append)
  then have o: "own_order (map fst (map ?g pre) @ [fst p])" by (simp add: comp_def)
  have "fst p \<notin> set (map fst pre)" using Cons.prems(2) by auto
  then have n: "fst p \<notin> set (map fst (map ?g pre))" by (simp add: comp_def)
  have step: "define_prop (map ?g pre) (fst p) (JString (snd p)) = map ?g (pre @ [p])"
    using define_prop_end [OF o n] by simp
  have "foldl (\<lambda>m p. define_prop m (fst p) (JString (snd p))) (map ?g (pre @ [p])) ps =
        map ?g ((pre @ [p]) @ ps)"
    using Cons.prems by (intro Cons.IH) simp_all
  with step show ?case by simp
qed

lemma JSON_parse_stringify:
  assumes "own_order (map fst obj)" and "distinct (map fst obj)"
  shows "JSON_parse (JSON_stringify obj) = Inr (as_json obj)"
  using foldl_define_prop [of "[]" obj] assms
  by (simp add: JSON_parse_def lex_JSON_stringify parse_members as_json_def
        del: parse_tokens.simps)

section \<open>Decimal digits and array indices\<close>

lemma digit_range: "is_digit c \<Longrightarrow> 0 \<le> uint (c - 0x30) \<and> uint (c - 0x30) \<le> 9"
proof -
  assume "is_digit c"
  then have "48 \<le> uint c" and "uint c \<le> 57"
    by (simp_all add: is_digit_def word_le_def)
  then have "uint (c - 0x30) = uint c - 48"
    by (simp add: uint_sub_if' word_le_def)
  with \<open>48 \<le> uint c\<close> \<open>uint c \<le> 57\<close> show ?thesis by simp
qed

lemma digit_inj: "uint (c - 0x30) = uint (d - 0x30) \<Longrightarrow> c = (d :: 16 word)"
  by (simp add: word_uint_eq_iff [symmetric])

lemma digits_value_snoc: "digits_value (ds @ [c]) = 10 * digits_value ds + uint (c - 0x30)"
  by (simp add: digits_value_def)

lemma digits_value_bounds:
  "list_all is_digit ds \<Longrightarrow> 0 \<le> digits_value ds \<and> digits_value ds < 10 ^ length ds"
proof (induction ds rule: rev_induct)
  case Nil
  then show ?case by (simp add: digits_value_def)
next
  case (snoc c ds)
  then have "is_digit c" and ih: "0 \<le> digits_value ds \<and> digits_value ds < 10 ^ length ds"
    by simp_all
  from digit_range [OF \<open>is_digit c\<close>] ih show ?case
    by (simp add: digits_value_snoc)
qed

lemma digits_value_inj_same_length:
  "list_all is_digit xs \<Longrightarrow> list_all is_digit ys \<Longrightarrow> length xs = length ys \<Longrightarrow>
     digits_value xs = digits_value ys \<Longrightarrow> xs = ys"
proof (induction xs arbitrary: ys rule: rev_induct)
  case Nil
  then show ?case by simp
next
  case (snoc x xs)
  then obtain y ys' where ys: "ys = ys' @ [y]"
    by (cases ys rule: rev_cases) auto
  from snoc.prems ys have dx: "is_digit x" and dy: "is_digit y"
    and lx: "list_all is_digit xs" and ly: "list_all is_digit ys'"
    and len: "length xs = length ys'"
    by simp_all
  from snoc.prems(4) ys
  have eq: "10 * digits_value xs + uint (x - 0x30) = 10 * digits_value ys' + uint (y - 0x30)"
    by (simp add: digits_value_snoc)
  from digit_range [OF dx] digit_range [OF dy] eq
  have "uint (x - 0x30) = uint (y - 0x30)" and "digits_value xs = digits_value ys'"
    by presburger+
  then have "x = y" and "xs = ys'"
    using snoc.IH [OF lx ly len] by (simp_all add: digit_inj)
  with ys show ?case by simp
qed


lemma foldl_digits_start:
  "foldl (\<lambda>n c. 10 * n + uint (c - 0x30)) a ds =
     a * 10 ^ length ds + foldl (\<lambda>n c. 10 * n + uint (c - (0x30 :: 16 word))) 0 ds"
proof (induction ds rule: rev_induct)
  case Nil
  then show ?case by simp
next
  case (snoc c ds)
  then show ?case by (simp add: algebra_simps)
qed

lemma digits_value_Cons:
  "digits_value (c # cs) = uint (c - 0x30) * 10 ^ length cs + digits_value cs"
  using foldl_digits_start [of "uint (c - 0x30)" cs] by (simp add: digits_value_def)

lemma array_index_shape:
  assumes "is_array_index k"
  shows "list_all is_digit k \<and>
         (k = [0x30] \<or> 10 ^ (length k - 1) \<le> digits_value k)"
proof -
  from assms obtain c cs where k: "k = c # cs"
    by (cases k) (simp_all add: is_array_index_def)
  from assms k have d: "list_all is_digit (c # cs)" and z: "c = 0x30 \<longrightarrow> cs = []"
    by (simp_all add: is_array_index_def)
  show ?thesis
  proof (cases "c = 0x30")
    case True
    with z k d show ?thesis by simp
  next
    case False
    from d have "is_digit c" by simp
    then have "0 \<le> uint (c - 0x30)" by (simp add: digit_range)
    moreover have "uint (c - 0x30) \<noteq> 0"
    proof
      assume "uint (c - 0x30) = 0"
      then have "uint (c - 0x30) = uint ((0x30 :: 16 word) - 0x30)" by simp
      then have "c = 0x30" by (rule digit_inj)
      with False show False by simp
    qed
    ultimately have one: "1 \<le> uint (c - 0x30)" by linarith
    from d have "0 \<le> digits_value cs" using digits_value_bounds [of cs] by simp
    moreover have "(10 :: int) ^ length cs \<le> uint (c - 0x30) * 10 ^ length cs"
      using one by (simp add: mult_le_cancel_right)
    ultimately have "10 ^ length cs \<le> digits_value (c # cs)"
      unfolding digits_value_Cons by linarith
    with d k show ?thesis by simp
  qed
qed

lemma array_index_inj:
  assumes "is_array_index a" and "is_array_index b" and "digits_value a = digits_value b"
  shows "a = b"
proof -
  note sa = array_index_shape [OF assms(1)] and sb = array_index_shape [OF assms(2)]
  have ba: "digits_value a < 10 ^ length a" and bb: "digits_value b < 10 ^ length b"
    using sa sb digits_value_bounds by blast+
  have na: "a \<noteq> []" and nb: "b \<noteq> []"
    using assms(1,2) by (auto simp: is_array_index_def)
  have zero: "digits_value [0x30 :: 16 word] = 0" by (simp add: digits_value_def)
  have "length a = length b"
  proof (cases "a = [0x30] \<or> b = [0x30]")
    case True
    then have v0: "digits_value a = 0" using zero assms(3) by auto
    have "a = [0x30]"
    proof (rule ccontr)
      assume "a \<noteq> [0x30]"
      with sa have "(10::int) ^ (length a - 1) \<le> digits_value a" by simp
      moreover have "(0::int) < 10 ^ (length a - 1)" by simp
      ultimately show False using v0 by linarith
    qed
    moreover have "b = [0x30]"
    proof (rule ccontr)
      assume "b \<noteq> [0x30]"
      with sb have "(10::int) ^ (length b - 1) \<le> digits_value b" by simp
      moreover have "(0::int) < 10 ^ (length b - 1)" by simp
      ultimately show False using v0 assms(3) by linarith
    qed
    ultimately show ?thesis by simp
  next
    case False
    with sa sb have la: "(10::int) ^ (length a - 1) \<le> digits_value a"
      and lb: "(10::int) ^ (length b - 1) \<le> digits_value b" by simp_all
    from la bb assms(3) have "(10::int) ^ (length a - 1) < 10 ^ length b" by linarith
    then have 1: "length a - 1 < length b" by simp
    from lb ba assms(3) have "(10::int) ^ (length b - 1) < 10 ^ length a" by linarith
    then have 2: "length b - 1 < length a" by simp
    from 1 2 na nb show ?thesis by (cases a; cases b) auto
  qed
  with sa sb assms(3) show ?thesis by (blast intro: digits_value_inj_same_length)
qed

section \<open>The order of the keys is kept\<close>

lemma own_order_filter: "own_order ks \<Longrightarrow> own_order (filter P ks)"
  by (induction ks) (auto simp: list_all_iff)

lemma own_order_delete_prop:
  "own_order (map fst obj) \<Longrightarrow> own_order (map fst (delete_prop obj k))"
proof -
  have "map fst (delete_prop obj k) = filter (\<lambda>a. a \<noteq> k) (map fst obj)"
    by (simp add: delete_prop_def filter_map comp_def)
  then show "own_order (map fst obj) \<Longrightarrow> own_order (map fst (delete_prop obj k))"
    by (simp add: own_order_filter)
qed

lemma own_order_snoc_plain:
  "own_order ks \<Longrightarrow> \<not> is_array_index k \<Longrightarrow> own_order (ks @ [k])"
  by (induction ks) auto

lemma own_order_insert_index:
  assumes "own_order (map fst obj)" and "is_array_index k" and "k \<notin> fst ` set obj"
  shows "own_order (map fst (insert_index k v obj))"
  using assms(1,3)
proof (induction obj)
  case Nil
  then show ?case by simp
next
  case (Cons p ps)
  then have tail: "own_order (map fst ps)" and kp: "k \<noteq> fst p" and kps: "k \<notin> fst ` set ps"
    by auto
  show ?case
  proof (cases "is_array_index (fst p) \<and> digits_value (fst p) < digits_value k")
    case True
    have "list_all (\<lambda>j. if is_array_index j then digits_value (fst p) < digits_value j else True)
            (map fst (insert_index k v ps))"
      using Cons.prems(1) True
      by (auto simp: list_all_iff keys_insert_index)
    with True Cons.IH [OF tail kps] show ?thesis by simp
  next
    case False
    have less: "digits_value k < digits_value (fst p)" if "is_array_index (fst p)"
    proof -
      from that False have "digits_value k \<le> digits_value (fst p)" by simp
      moreover have "digits_value k \<noteq> digits_value (fst p)"
        using array_index_inj [OF assms(2) that] kp by blast
      ultimately show ?thesis by simp
    qed
    have "digits_value k < digits_value j" if "j \<in> fst ` set ps" and "is_array_index j" for j
    proof (cases "is_array_index (fst p)")
      case True
      with Cons.prems(1) that have "digits_value (fst p) < digits_value j"
        by (auto simp: list_all_iff)
      with less [OF True] show ?thesis by simp
    next
      case False
      with Cons.prems(1) that show ?thesis by (auto simp: list_all_iff)
    qed
    with less have "list_all (\<lambda>j. if is_array_index j then digits_value k < digits_value j else True)
            (map fst (p # ps))"
      by (auto simp: list_all_iff)
    with False assms(2) Cons.prems(1) show ?thesis by simp
  qed
qed

lemma own_order_define_prop:
  assumes "own_order (map fst obj)"
  shows "own_order (map fst (define_prop obj k v))"
proof (cases "k \<in> set (map fst obj)")
  case True
  then have "define_prop obj k v = map (\<lambda>p. if fst p = k then (k, v) else p) obj"
    by (simp add: define_prop_def)
  then show ?thesis using assms by (simp only: map_fst_replace)
next
  case False
  with assms show ?thesis
    by (simp add: define_prop_def own_order_insert_index own_order_snoc_plain)
qed

lemma well_formed_toggleFavourite:
  assumes "well_formed (favourites w)"
  shows "well_formed (favourites (snd (toggleFavourite x n w)))"
proof -
  from assms have o: "own_order (map fst (favourites w))"
    and d: "distinct (map fst (favourites w))"
    by (simp_all add: well_formed_def)
  have "own_order (map fst (favourites (snd (toggleFavourite x n w))))"
    using o own_order_define_prop [OF o] own_order_delete_prop [OF o]
    by (simp add: favourites_toggleFavourite assign_prop_def)
  with distinct_toggleFavourite [OF d] show ?thesis by (simp add: well_formed_def)
qed

lemma JSON_stringify_not_empty: "JSON_stringify obj \<noteq> []"
  by (simp add: JSON_stringify_def js_def)

lemma loadFavourites_after_toggle:
  assumes "well_formed (favourites w)" and "fst (toggleFavourite x n w) = None"
  shows "loadFavourites (snd (toggleFavourite x n w)) =
           Inr (as_json (favourites (snd (toggleFavourite x n w))))"
proof -
  have "well_formed (favourites (snd (toggleFavourite x n w)))"
    using assms(1) by (rule well_formed_toggleFavourite)
  then have "JSON_parse (JSON_stringify (favourites (snd (toggleFavourite x n w)))) =
      Inr (as_json (favourites (snd (toggleFavourite x n w))))"
    by (simp add: well_formed_def JSON_parse_stringify)
  with toggleFavourite_ok [OF assms(2)] show ?thesis
    by (simp add: loadFavourites_def JSON_stringify_not_empty)
qed

section \<open>Evaluation\<close>

lemmas object_eval = get_prop_def assign_prop_def define_prop_def delete_prop_def
  is_array_index_def is_digit_def digits_value_def Object_prototype_names_def js_def
  Object_entries_def Object_keys_def

lemmas stringify_eval = JSON_stringify_def QuoteJSONString_def quote_unit_def
  is_high_surrogate_def is_low_surrogate_def unicode_escape_def hex_digit_def

lemmas storage_eval = saveFavourites_def setItem_def put_item_def storage_size_def
  storage_key_def getItem_def Let_def

lemmas parse_eval = JSON_parse_def lex_step_def top_step_def num_step_def escape_unit_def
  parse_step_def begin_value_def read_key_def

lemmas page_eval = bare_page_def page_without_elements_def page_without_list_def
  main_st_heading_def stop_page_def stop_101_page_def king_st_page_def
  stop_101_with_card_def stored_page_def corrupt_page_def full_page_def tight_page_def
  markup_page_def

lemma example_browser_cards:
  "example_browser (card_markup (js ''5'') (js ''King St'')) = [template_button (js ''5'')]"
  "example_browser (card_markup (js ''101'') (js ''Main St Station'')) = [template_button (js ''101'')]"
  "example_browser (card_markup (js ''1'') (js ''<i>x</i>'')) = [template_button (js ''1'')]"
  "example_browser (card_markup (js ''101'') []) = [template_button (js ''101'')]"
  by (simp_all add: example_browser_def card_markup_def js_def)

lemmas method_eval = toggleFavourite_def renderFavourites_def updateFavouriteButtons_def
  update_button_def make_card_def addFavouriteButtonToBusTimes_def new_button_def
  has_favourite_button_def example_browser_def card_markup_def template_button_def

section \<open>Claims\<close>

subsection \<open>C1: loadFavourites\<close>

text \<open>
  C1, as the code has it. \<^verbatim>\<open>loadFavourites\<close> returns the empty object when the
  store has no item under the key, and also when the item is the empty string. When
  the item is valid JSON it returns the parsed value. When the item is not valid JSON
  and not empty, the SyntaxError of \<^verbatim>\<open>JSON.parse\<close> leaves the method: nothing
  catches it.
\<close>

theorem loadFavourites_result:
  "(getItem (localStorage w) storage_key = None \<longrightarrow> loadFavourites w = Inr (JObject []))
   \<and> (\<forall>s v. getItem (localStorage w) storage_key = Some s \<and> JSON_parse s = Inr v
          \<longrightarrow> loadFavourites w = Inr v)
   \<and> (\<forall>s e. getItem (localStorage w) storage_key = Some s \<and> JSON_parse s = Inl e
          \<longrightarrow> loadFavourites w = (if s = [] then Inr (JObject []) else Inl SyntaxError))"
  using JSON_parse_empty by (auto simp: loadFavourites_def dest: JSON_parse_error)

text \<open>
  The three cases at pages that have them: no item, the item
  \<^verbatim>\<open>{"5":"King St"}\<close>, the item \<^verbatim>\<open>not json\<close>.
\<close>

theorem loadFavourites_result_witness:
  "getItem (localStorage bare_page) storage_key = None
   \<and> loadFavourites bare_page = Inr (JObject [])
   \<and> getItem (localStorage stored_page) storage_key = Some (js ''{\"5\":\"King St\"}'')
   \<and> JSON_parse (js ''{\"5\":\"King St\"}'') = Inr (JObject [(js ''5'', JString (js ''King St''))])
   \<and> loadFavourites stored_page = Inr (JObject [(js ''5'', JString (js ''King St''))])
   \<and> getItem (localStorage corrupt_page) storage_key = Some (js ''not json'')
   \<and> JSON_parse (js ''not json'') = Inl SyntaxError
   \<and> loadFavourites corrupt_page = Inl SyntaxError"
proof -
  have a: "getItem (localStorage bare_page) storage_key = None"
    by (simp add: page_eval getItem_def)
  have b: "getItem (localStorage stored_page) storage_key = Some (js ''{\"5\":\"King St\"}'')"
    by (simp add: page_eval getItem_def)
  have c: "JSON_parse (js ''{\"5\":\"King St\"}'') = Inr (JObject [(js ''5'', JString (js ''King St''))])"
    by (simp add: parse_eval object_eval)
  have d: "getItem (localStorage corrupt_page) storage_key = Some (js ''not json'')"
    by (simp add: page_eval getItem_def)
  have e: "JSON_parse (js ''not json'') = Inl SyntaxError"
    by (simp add: parse_eval object_eval)
  have f: "js ''not json'' \<noteq> []"
    by (simp add: js_def)
  show ?thesis
    using a b c d e f loadFavourites_result [of bare_page] loadFavourites_result [of stored_page]
      loadFavourites_result [of corrupt_page]
    by simp
qed

text \<open>
  C1 as stated fails: with \<^verbatim>\<open>not json\<close> in the store the method does not return
  the empty set, it throws.
\<close>

theorem loadFavourites_malformed_counterexample:
  "loadFavourites corrupt_page = Inl SyntaxError
   \<and> loadFavourites corrupt_page \<noteq> Inr (JObject [])"
  by (simp add: loadFavourites_def page_eval getItem_def parse_eval object_eval)

subsection \<open>C2: one toggle control in the heading\<close>

text \<open>
  C2 at an input where the code departs from it. King St is a favourite and its card
  is on the page; the bus-times view shows stop 101, whose heading has no control yet.
  The binder looks for an element of class \<^verbatim>\<open>favourite-button\<close> in the whole
  document, finds the button of the card, and returns: the heading of stop 101 gets
  no toggle control, however often the binder is called.
\<close>

theorem binder_blocked_by_card:
  "favourites stop_101_with_card = [(js ''5'', js ''King St'')]
   \<and> favourites_list stop_101_with_card =
       Some [\<lparr>card_heading = js ''King St'', card_buttons = [template_button (js ''5'')],
              card_click = (js ''5'', js ''King St'')\<rparr>]
   \<and> search_stop_id stop_101_with_card = Some (js ''101'')
   \<and> bus_times_header stop_101_with_card =
       Some \<lparr>h_text = js ''Upcoming Buses at Main St Station'', h_buttons = []\<rparr>
   \<and> addFavouriteButtonToBusTimes stop_101_with_card = stop_101_with_card
   \<and> (addFavouriteButtonToBusTimes ^^ 3) stop_101_with_card = stop_101_with_card"
proof -
  have cards: "favourites_list stop_101_with_card =
       Some [\<lparr>card_heading = js ''King St'', card_buttons = [template_button (js ''5'')],
              card_click = (js ''5'', js ''King St'')\<rparr>]"
    by (simp add: page_eval renderFavourites_def Object_entries_def Object_keys_def
          make_card_def example_browser_cards)
  then have "has_favourite_button stop_101_with_card"
    by (simp add: has_favourite_button_def template_button_def)
  then have fixed: "addFavouriteButtonToBusTimes stop_101_with_card = stop_101_with_card"
    by (rule binder_has_button)
  then have "(addFavouriteButtonToBusTimes ^^ 3) stop_101_with_card = stop_101_with_card"
    by (rule funpow_fixed)
  moreover have "favourites stop_101_with_card = [(js ''5'', js ''King St'')]"
    and "search_stop_id stop_101_with_card = Some (js ''101'')"
    and "bus_times_header stop_101_with_card =
       Some \<lparr>h_text = js ''Upcoming Buses at Main St Station'', h_buttons = []\<rparr>"
    by (simp_all add: page_eval renderFavourites_def Object_keys_def)
  ultimately show ?thesis using cards fixed by simp
qed

subsection \<open>C3: toggling twice\<close>

text \<open>
  C3 at the inputs where the code departs from it. From the empty set, toggling stop
  101 with the empty name twice leaves the entry in the set: the second call finds the
  stored name falsy and stores it again. And toggling the identifier
  \<^verbatim>\<open>constructor\<close>, which is not in the set, does not add it: the lookup finds the
  inherited property.
\<close>

theorem toggle_twice_not_restored:
  "favourites bare_page = []
   \<and> favourites (snd (toggleFavourite (js ''101'') [] bare_page)) = [(js ''101'', [])]
   \<and> favourites (snd (toggleFavourite (js ''101'') []
        (snd (toggleFavourite (js ''101'') [] bare_page)))) = [(js ''101'', [])]
   \<and> favourites (snd (toggleFavourite (js ''constructor'') (js ''Main St Station'') bare_page)) = []"
  by (simp add: favourites_toggleFavourite page_eval object_eval)

subsection \<open>C4: what a toggle does\<close>

text \<open>
  C4, as the code has it. Let every stored name be non-empty and let the stop
  identifier not be a property name of \<^verbatim>\<open>Object.prototype\<close>. Then
  \<^verbatim>\<open>toggleFavourite\<close> removes the entry of the identifier if there is one and
  stores the name under it otherwise, and leaves every other entry as it was. It then
  writes the serialization of the whole resulting object to the store. If the store
  takes the write, the persisted item is that serialization; if it throws
  QuotaExceededError, the store is unchanged and the exception leaves the method.
\<close>

theorem toggleFavourite_effect:
  assumes "list_all (\<lambda>p. snd p \<noteq> []) (favourites w)"
    and "stopId \<notin> set Object_prototype_names"
  shows "map_of (favourites (snd (toggleFavourite stopId stopName w))) stopId =
           (if stopId \<in> set (Object_keys (favourites w)) then None else Some stopName)
         \<and> (\<forall>y. y \<noteq> stopId \<longrightarrow>
               map_of (favourites (snd (toggleFavourite stopId stopName w))) y =
                 map_of (favourites w) y)
         \<and> (fst (toggleFavourite stopId stopName w) = None \<longrightarrow>
               getItem (localStorage (snd (toggleFavourite stopId stopName w))) storage_key =
                 Some (JSON_stringify (favourites (snd (toggleFavourite stopId stopName w)))))
         \<and> (fst (toggleFavourite stopId stopName w) \<noteq> None \<longrightarrow>
               fst (toggleFavourite stopId stopName w) = Some QuotaExceededError \<and>
               localStorage (snd (toggleFavourite stopId stopName w)) = localStorage w)"
proof -
  have p: "stopId \<noteq> js ''__proto__''"
    using assms(2) by (auto simp: Object_prototype_names_def)
  have "map_of (favourites (snd (toggleFavourite stopId stopName w))) stopId =
           (if stopId \<in> set (Object_keys (favourites w)) then None else Some stopName)"
    using truthy_iff_member [OF assms] p
    by (simp add: favourites_toggleFavourite map_of_delete_prop assign_prop_def
          map_of_define_prop)
  moreover have "\<forall>y. y \<noteq> stopId \<longrightarrow>
               map_of (favourites (snd (toggleFavourite stopId stopName w))) y =
                 map_of (favourites w) y"
    by (simp add: favourites_toggleFavourite map_of_delete_prop map_of_assign_prop_other)
  ultimately show ?thesis
    using toggleFavourite_ok [of stopId stopName w] toggleFavourite_fail [of stopId stopName w]
    by blast
qed

text \<open>
  Stop 5 is a favourite. Toggling stop 101 stores it beside stop 5, toggling stop 5
  removes it; both writes are taken and the item is the whole object.
\<close>

theorem toggleFavourite_effect_witness:
  "list_all (\<lambda>p. snd p \<noteq> []) (favourites king_st_page)
   \<and> js ''101'' \<notin> set Object_prototype_names
   \<and> js ''5'' \<notin> set Object_prototype_names
   \<and> js ''101'' \<notin> set (Object_keys (favourites king_st_page))
   \<and> js ''5'' \<in> set (Object_keys (favourites king_st_page))
   \<and> js ''5'' \<noteq> js ''101''
   \<and> fst (toggleFavourite (js ''101'') (js ''Main St Station'') king_st_page) = None
   \<and> fst (toggleFavourite (js ''5'') (js ''King St'') king_st_page) = None
   \<and> map_of (favourites (snd (toggleFavourite (js ''101'') (js ''Main St Station'') king_st_page)))
        (js ''101'') = Some (js ''Main St Station'')
   \<and> map_of (favourites (snd (toggleFavourite (js ''101'') (js ''Main St Station'') king_st_page)))
        (js ''5'') = Some (js ''King St'')
   \<and> map_of (favourites (snd (toggleFavourite (js ''5'') (js ''King St'') king_st_page)))
        (js ''5'') = None
   \<and> getItem (localStorage (snd (toggleFavourite (js ''101'') (js ''Main St Station'') king_st_page)))
        storage_key =
      Some (JSON_stringify (favourites (snd (toggleFavourite (js ''101'') (js ''Main St Station'') king_st_page))))
   \<and> getItem (localStorage (snd (toggleFavourite (js ''5'') (js ''King St'') king_st_page)))
        storage_key =
      Some (JSON_stringify (favourites (snd (toggleFavourite (js ''5'') (js ''King St'') king_st_page))))"
proof -
  have a: "list_all (\<lambda>p. snd p \<noteq> []) (favourites king_st_page)"
    by (simp add: page_eval js_def)
  have b: "js ''101'' \<notin> set Object_prototype_names"
    by (simp add: Object_prototype_names_def js_def)
  have c: "js ''5'' \<notin> set Object_prototype_names"
    by (simp add: Object_prototype_names_def js_def)
  have d: "js ''101'' \<notin> set (Object_keys (favourites king_st_page))"
    by (simp add: page_eval Object_keys_def js_def)
  have e: "js ''5'' \<in> set (Object_keys (favourites king_st_page))"
    by (simp add: page_eval Object_keys_def)
  have f: "js ''5'' \<noteq> js ''101''"
    by (simp add: js_def)
  have g: "fst (toggleFavourite (js ''101'') (js ''Main St Station'') king_st_page) = None"
    by (simp add: toggleFavourite_def page_eval object_eval stringify_eval storage_eval)
  have h: "fst (toggleFavourite (js ''5'') (js ''King St'') king_st_page) = None"
    by (simp add: toggleFavourite_def page_eval object_eval stringify_eval storage_eval)
  have i: "map_of (favourites king_st_page) (js ''5'') = Some (js ''King St'')"
    by (simp add: page_eval)
  show ?thesis
    using toggleFavourite_effect [OF a b, of "js ''Main St Station''"]
      toggleFavourite_effect [OF a c, of "js ''King St''"] a b c d e f g h i
    by simp
qed

text \<open>
  C4 as stated fails: when the store has no room, the entry is added in memory and
  nothing is persisted.
\<close>

theorem toggleFavourite_not_persisted_counterexample:
  "fst (toggleFavourite (js ''101'') (js ''Main St Station'') full_page) = Some QuotaExceededError
   \<and> favourites (snd (toggleFavourite (js ''101'') (js ''Main St Station'') full_page)) =
       [(js ''101'', js ''Main St Station'')]
   \<and> getItem (localStorage (snd (toggleFavourite (js ''101'') (js ''Main St Station'') full_page)))
       storage_key = None"
  by (simp add: toggleFavourite_def page_eval object_eval stringify_eval storage_eval)

subsection \<open>C5: visibility of the favourites section\<close>

text \<open>
  C5, as the code has it. Let the page have the favourites list and the favourites
  section. Then for every sequence of toggles from any favourites object, after each
  toggle that reaches its re-render (its save did not throw) the section is visible
  if and only if the object has an entry.
\<close>

theorem section_visible_iff_nonempty:
  assumes "favourites_list w \<noteq> None" and "favourites_section w \<noteq> None"
  shows "\<forall>r \<in> set (toggle_trace ts w).
           fst r = None \<longrightarrow> (section_visible (snd r) \<longleftrightarrow> favourites (snd r) \<noteq> [])"
  using assms
proof (induction ts arbitrary: w)
  case Nil
  then show ?case by simp
next
  case (Cons t ts)
  let ?r = "toggleFavourite (fst t) (snd t) w"
  have here: "fst ?r = None \<longrightarrow> (section_visible (snd ?r) \<longleftrightarrow> favourites (snd ?r) \<noteq> [])"
    using toggleFavourite_section [OF Cons.prems, of "fst t" "snd t"]
    by (simp add: section_visible_def block_not_none)
  have "favourites_list (snd ?r) \<noteq> None" and "favourites_section (snd ?r) \<noteq> None"
    using Cons.prems toggleFavourite_elements [of "fst t" "snd t" w] by simp_all
  then have "\<forall>r \<in> set (toggle_trace ts (snd ?r)).
           fst r = None \<longrightarrow> (section_visible (snd r) \<longleftrightarrow> favourites (snd r) \<noteq> [])"
    by (rule Cons.IH)
  with here show ?case by (simp add: Let_def)
qed

text \<open>
  The example of the specification: from the empty set, toggling stop 101 shows the
  section, toggling it again hides it.
\<close>

theorem section_visible_iff_nonempty_witness:
  "favourites_list bare_page \<noteq> None
   \<and> favourites_section bare_page \<noteq> None
   \<and> map fst (toggle_trace [(js ''101'', js ''Main St Station''), (js ''101'', js ''Main St Station'')]
        bare_page) = [None, None]
   \<and> map (\<lambda>r. favourites (snd r))
        (toggle_trace [(js ''101'', js ''Main St Station''), (js ''101'', js ''Main St Station'')]
           bare_page) = [[(js ''101'', js ''Main St Station'')], []]
   \<and> map (\<lambda>r. section_visible (snd r))
        (toggle_trace [(js ''101'', js ''Main St Station''), (js ''101'', js ''Main St Station'')]
           bare_page) = [True, False]"
proof -
  let ?ts = "[(js ''101'', js ''Main St Station''), (js ''101'', js ''Main St Station'')]"
  let ?w1 = "bare_page\<lparr>favourites := [(js ''101'', js ''Main St Station'')],
      localStorage := \<lparr>items = [(storage_key, js ''{\"101\":\"Main St Station\"}'')],
                      quota = 5242880\<rparr>,
      favourites_list := Some [\<lparr>card_heading = js ''Main St Station'',
         card_buttons = [\<lparr>btn_active = True, btn_stop_id = Some (js ''101''),
                        btn_title = js ''Remove from favourites'',
                        btn_html = star_icon, btn_click = None\<rparr>],
         card_click = (js ''101'', js ''Main St Station'')\<rparr>],
      favourites_section := Some (js ''block'')\<rparr>"
  let ?w2 = "bare_page\<lparr>favourites := [],
      localStorage := \<lparr>items = [(storage_key, js ''{}'')], quota = 5242880\<rparr>,
      favourites_list := Some [],
      favourites_section := Some (js ''none'')\<rparr>"
  have a: "favourites_list bare_page \<noteq> None" and b: "favourites_section bare_page \<noteq> None"
    by (simp_all add: page_eval)
  have r1: "toggleFavourite (js ''101'') (js ''Main St Station'') bare_page = (None, ?w1)"
    by (simp add: method_eval page_eval object_eval stringify_eval storage_eval)
  have r2: "toggleFavourite (js ''101'') (js ''Main St Station'') ?w1 = (None, ?w2)"
    by (simp add: method_eval page_eval object_eval stringify_eval storage_eval)
  have tr: "toggle_trace ?ts bare_page = [(None, ?w1), (None, ?w2)]"
    by (simp add: Let_def r1 r2)
  from section_visible_iff_nonempty [OF a b, of ?ts]
  have "section_visible ?w1 = (favourites ?w1 \<noteq> [])"
    and "section_visible ?w2 = (favourites ?w2 \<noteq> [])"
    unfolding tr by simp_all
  then show ?thesis
    using a b unfolding tr by (simp add: page_eval)
qed

text \<open>
  C5 as stated fails: on a page that has the section but not the list, the render
  returns before it reaches the section, which stays hidden while the set has an
  entry.
\<close>

theorem section_hidden_counterexample:
  "map (\<lambda>r. (fst r, favourites (snd r), section_visible (snd r)))
     (toggle_trace [(js ''101'', js ''Main St Station'')] page_without_list) =
   [(None, [(js ''101'', js ''Main St Station'')], False)]"
  by (simp add: toggleFavourite_def page_eval object_eval stringify_eval storage_eval
        renderFavourites_def updateFavouriteButtons_def section_visible_def)

subsection \<open>C6: one card for each entry\<close>


subsection \<open>C7: the store after a toggle\<close>

text \<open>
  C7, as the code has it. Every toggle writes the serialization of the whole object
  in memory under the one key. If the store takes the write, the persisted item
  equals that serialization, and \<^verbatim>\<open>loadFavourites\<close> reads back from it the
  object in memory, entry for entry and in the same order. If the store throws
  QuotaExceededError, the store is unchanged and the exception leaves the method.
  In both cases the object in memory has been changed.
\<close>

theorem toggleFavourite_persists:
  "(fst (toggleFavourite x n w) = None \<longrightarrow>
      getItem (localStorage (snd (toggleFavourite x n w))) storage_key =
        Some (JSON_stringify (favourites (snd (toggleFavourite x n w)))))
   \<and> (fst (toggleFavourite x n w) = None \<and> well_formed (favourites w) \<longrightarrow>
      loadFavourites (snd (toggleFavourite x n w)) =
        Inr (as_json (favourites (snd (toggleFavourite x n w)))))
   \<and> (fst (toggleFavourite x n w) \<noteq> None \<longrightarrow>
      fst (toggleFavourite x n w) = Some QuotaExceededError \<and>
      localStorage (snd (toggleFavourite x n w)) = localStorage w)
   \<and> favourites (snd (toggleFavourite x n w)) =
       (if truthy (get_prop (favourites w) x) then delete_prop (favourites w) x
        else assign_prop (favourites w) x n)"
  using toggleFavourite_ok [of x n w] toggleFavourite_fail [of x n w]
    loadFavourites_after_toggle [of w x n] favourites_toggleFavourite [of x n w]
  by blast

text \<open>A write that is taken, and one that is refused.\<close>

theorem toggleFavourite_persists_witness:
  "fst (toggleFavourite (js ''101'') (js ''Main St Station'') bare_page) = None
   \<and> favourites (snd (toggleFavourite (js ''101'') (js ''Main St Station'') bare_page)) =
       [(js ''101'', js ''Main St Station'')]
   \<and> getItem (localStorage (snd (toggleFavourite (js ''101'') (js ''Main St Station'') bare_page)))
       storage_key = Some (js ''{\"101\":\"Main St Station\"}'')
   \<and> well_formed (favourites bare_page)
   \<and> loadFavourites (snd (toggleFavourite (js ''101'') (js ''Main St Station'') bare_page)) =
       Inr (JObject [(js ''101'', JString (js ''Main St Station''))])
   \<and> fst (toggleFavourite (js ''101'') (js ''Main St Station'') tight_page) \<noteq> None
   \<and> localStorage (snd (toggleFavourite (js ''101'') (js ''Main St Station'') tight_page)) =
       localStorage tight_page
   \<and> favourites tight_page = []
   \<and> favourites (snd (toggleFavourite (js ''101'') (js ''Main St Station'') tight_page)) =
       [(js ''101'', js ''Main St Station'')]"
proof -
  have a: "fst (toggleFavourite (js ''101'') (js ''Main St Station'') bare_page) = None"
    by (simp add: toggleFavourite_def page_eval object_eval stringify_eval storage_eval)
  have b: "favourites (snd (toggleFavourite (js ''101'') (js ''Main St Station'') bare_page)) =
       [(js ''101'', js ''Main St Station'')]"
    by (simp add: favourites_toggleFavourite page_eval object_eval)
  have c: "JSON_stringify [(js ''101'', js ''Main St Station'')] = js ''{\"101\":\"Main St Station\"}''"
    by (simp add: stringify_eval js_def)
  have d: "fst (toggleFavourite (js ''101'') (js ''Main St Station'') tight_page) \<noteq> None"
    by (simp add: toggleFavourite_def page_eval object_eval stringify_eval storage_eval)
  have e: "well_formed (favourites bare_page)"
    by (simp add: page_eval well_formed_def)
  have f: "favourites tight_page = []"
    by (simp add: page_eval)
  have g: "\<not> truthy (get_prop [] (js ''101''))"
    "assign_prop [] (js ''101'') (js ''Main St Station'') = [(js ''101'', js ''Main St Station'')]"
    by (simp_all add: object_eval)
  from toggleFavourite_persists [of "js ''101''" "js ''Main St Station''" tight_page] d
  have h: "localStorage (snd (toggleFavourite (js ''101'') (js ''Main St Station'') tight_page)) =
             localStorage tight_page"
    and i: "favourites (snd (toggleFavourite (js ''101'') (js ''Main St Station'') tight_page)) =
             [(js ''101'', js ''Main St Station'')]"
    by (simp_all add: f g)
  from toggleFavourite_persists [of "js ''101''" "js ''Main St Station''" bare_page] a e
  have j: "getItem (localStorage (snd (toggleFavourite (js ''101'') (js ''Main St Station'') bare_page)))
             storage_key =
           Some (JSON_stringify (favourites (snd (toggleFavourite (js ''101'') (js ''Main St Station'') bare_page))))"
    and k: "loadFavourites (snd (toggleFavourite (js ''101'') (js ''Main St Station'') bare_page)) =
           Inr (as_json (favourites (snd (toggleFavourite (js ''101'') (js ''Main St Station'') bare_page))))"
    by simp_all
  show ?thesis
    using a b c d e f h i j k by (simp add: as_json_def)
qed

text \<open>
  C7 as stated fails: when the store has room for less than the new serialization,
  the set in memory has the new entry and the persisted item is still the old one.
\<close>

theorem toggleFavourite_stale_store_counterexample:
  "favourites (snd (toggleFavourite (js ''101'') (js ''Main St Station'') tight_page)) =
     [(js ''101'', js ''Main St Station'')]
   \<and> JSON_stringify [(js ''101'', js ''Main St Station'')] = js ''{\"101\":\"Main St Station\"}''
   \<and> getItem (localStorage (snd (toggleFavourite (js ''101'') (js ''Main St Station'') tight_page)))
       storage_key = Some (js ''{}'')
   \<and> getItem (localStorage (snd (toggleFavourite (js ''101'') (js ''Main St Station'') tight_page)))
       storage_key \<noteq>
     Some (JSON_stringify (favourites (snd (toggleFavourite (js ''101'') (js ''Main St Station'') tight_page))))"
  by (simp add: toggleFavourite_def page_eval object_eval stringify_eval storage_eval)

subsection \<open>C8: absent elements\<close>

text \<open>
  C8. When the page has no favourites list, \<^verbatim>\<open>renderFavourites\<close> returns with
  nothing changed; when it has no bus-times heading,
  \<^verbatim>\<open>addFavouriteButtonToBusTimes\<close> returns with nothing changed. Neither can
  throw.
\<close>

theorem absent_elements_noop:
  "(favourites_list w = None \<longrightarrow> renderFavourites w = w)
   \<and> (bus_times_header w = None \<longrightarrow> addFavouriteButtonToBusTimes w = w)"
  by (simp add: renderFavourites_def addFavouriteButtonToBusTimes_def)

theorem absent_elements_noop_witness:
  "favourites_list page_without_elements = None
   \<and> bus_times_header page_without_elements = None
   \<and> renderFavourites page_without_elements = page_without_elements
   \<and> addFavouriteButtonToBusTimes page_without_elements = page_without_elements"
proof -
  have "favourites_list page_without_elements = None"
    and "bus_times_header page_without_elements = None"
    by (simp_all add: page_eval)
  then show ?thesis
    using absent_elements_noop [of page_without_elements] by simp
qed

subsection \<open>C9: the other entries\<close>

text \<open>
  C9. For distinct stop identifiers \<open>x\<close> and \<open>y\<close>, a toggle of \<open>x\<close> leaves the own
  property \<open>y\<close> of the favourites object as it was: present or not, and with the same
  stored name.
\<close>

theorem toggleFavourite_frame:
  assumes "x \<noteq> y"
  shows "map_of (favourites (snd (toggleFavourite x name w))) y = map_of (favourites w) y
         \<and> (y \<in> set (Object_keys (favourites (snd (toggleFavourite x name w))))
              \<longleftrightarrow> y \<in> set (Object_keys (favourites w)))"
proof -
  have m: "map_of (favourites (snd (toggleFavourite x name w))) y = map_of (favourites w) y"
    using assms
    by (simp add: favourites_toggleFavourite map_of_delete_prop map_of_assign_prop_other)
  have "y \<in> set (Object_keys obj) \<longleftrightarrow> map_of obj y \<noteq> None" for obj :: object
    by (simp add: Object_keys_def map_of_eq_None_iff)
  with m show ?thesis by simp
qed

theorem toggleFavourite_frame_witness:
  "js ''101'' \<noteq> js ''5''
   \<and> js ''5'' \<in> set (Object_keys (favourites (snd (toggleFavourite (js ''101'') (js ''Main St Station'') king_st_page))))
   \<and> map_of (favourites (snd (toggleFavourite (js ''101'') (js ''Main St Station'') king_st_page)))
        (js ''5'') = Some (js ''King St'')
   \<and> map_of (favourites (snd (toggleFavourite (js ''101'') (js ''Main St Station'') king_st_page)))
        (js ''7'') = None"
proof -
  have a: "js ''101'' \<noteq> js ''5''" and b: "js ''101'' \<noteq> js ''7''"
    by (simp_all add: js_def)
  have c: "map_of (favourites king_st_page) (js ''5'') = Some (js ''King St'')"
    and d: "map_of (favourites king_st_page) (js ''7'') = None"
    and e: "js ''5'' \<in> set (Object_keys (favourites king_st_page))"
    by (simp_all add: page_eval js_def Object_keys_def)
  show ?thesis
    using toggleFavourite_frame [OF a, of "js ''Main St Station''" king_st_page]
      toggleFavourite_frame [OF b, of "js ''Main St Station''" king_st_page] a c d e
    by simp
qed

subsection \<open>C10: no stop identifier in the address\<close>

text \<open>
  C10. When the query string has no \<^verbatim>\<open>stop_id\<close> parameter, the binder returns
  with nothing changed: no control added, the set and the page as they were.
\<close>

theorem binder_without_stop_id:
  "search_stop_id w = None \<Longrightarrow> addFavouriteButtonToBusTimes w = w"
  by (simp add: addFavouriteButtonToBusTimes_def Let_def split: option.splits)

theorem binder_without_stop_id_witness:
  "search_stop_id stop_page = None
   \<and> bus_times_header stop_page = Some main_st_heading
   \<and> addFavouriteButtonToBusTimes stop_page = stop_page"
proof -
  have a: "search_stop_id stop_page = None"
    by (simp add: page_eval)
  have b: "bus_times_header stop_page = Some main_st_heading"
    by (simp add: page_eval)
  show ?thesis
    using binder_without_stop_id [OF a] a b by simp
qed

end
